theory Spec2Isabelle
  imports Complex_Main
begin

section \<open>Python values, exceptions and the observable state\<close>

text \<open>
  The pipeline of \<^verbatim>\<open>main.py\<close> and \<^verbatim>\<open>transcribe_audio.py\<close> passes two kinds of
  values where the annotations say \<^verbatim>\<open>str\<close>: real strings, and the empty list
  \<^verbatim>\<open>[]\<close> that \<^verbatim>\<open>transcribe\<close> returns on its fallback paths.
\<close>

datatype pyval = PyStr string | PyEmptyList

text \<open>\<^verbatim>\<open>str(v)\<close>, as used by \<^verbatim>\<open>str.format\<close> and f-strings.\<close>

fun py_str :: "pyval \<Rightarrow> string" where
  "py_str (PyStr t) = t"
| "py_str PyEmptyList = ''[]''"

text \<open>
  Exceptions are the subclasses of \<^verbatim>\<open>Exception\<close>: a class and the message that
  \<^verbatim>\<open>str(e)\<close> gives. Signals outside \<^verbatim>\<open>Exception\<close> (a keyboard interrupt, an
  interpreter exit) are not part of the model.
\<close>

datatype exn_class =
  ValueError | TypeError | FileNotFoundError | IndexError
  | LangDetectException | OpenAIError | ExtractionError

datatype exn = Exn exn_class string

fun exn_str :: "exn \<Rightarrow> string" where
  "exn_str (Exn c m) = m"

datatype level = INFO | ERROR

record chat_request =
  model :: string
  messages :: "(string \<times> pyval) list"
  temperature :: rat

text \<open>
  Everything a run does to the outside is appended to one chronological trace: the
  spinner and the other widgets of the user interface, the log records, the lines
  printed, the calls to the speech-to-text and chat services, the calls to the language
  detector with what \<^verbatim>\<open>detect_language\<close> returned, and the file operations. The
  events \<open>CallProcessVideo\<close>, \<open>CallTranslateText\<close> and
  \<open>CallGenerateDescription\<close> record that the method was entered, with its arguments, so that invocations can be counted; the
  events of the two services record the request together with its outcome.
\<close>

datatype event =
  StTitle string | StWarning string | StVideo string | StSpinner string
  | StSuccess string | StError string | StSubheader string | StWrite pyval
  | Logged level string
  | Printed string
  | ExtractFrames string string nat
  | ExtractAudio string string
  | TranscriptionsCreate string "exn + string option"
  | DetectLanguage pyval "string option"
  | CallProcessVideo string
  | CallTranslateText pyval string
  | CallGenerateDescription pyval string
  | ChatCreate chat_request "exn + string list"
  | OpenW string
  | FWrite string pyval
  | WriteBinary string

record state =
  files :: "string \<rightharpoonup> string"
  trace :: "event list"

text \<open>
  The world outside the program, fixed for one run. The chat service may answer the
  same request differently from call to call, so its answer also depends on the number
  of events that precede the call. A successful chat answer is the list of the
  \<^verbatim>\<open>message.content\<close> texts of its \<^verbatim>\<open>choices\<close>; a successful transcription answer
  is \<open>Some text\<close> when the object has a \<^verbatim>\<open>text\<close> attribute and \<open>None\<close> otherwise.
\<close>

record env =
  environ :: "string \<rightharpoonup> string"
  decode_frames :: "string \<Rightarrow> nat \<Rightarrow> (string \<times> string) list option"
  decode_audio :: "string \<Rightarrow> string option"
  audio_transcriptions_create :: "string \<Rightarrow> exn + string option"
  repr_transcription :: "string option \<Rightarrow> string"
  detect :: "pyval \<Rightarrow> exn + string"
  chat_completions_create :: "nat \<Rightarrow> chat_request \<Rightarrow> exn + string list"
  file_uploader :: "(string \<times> string) option"
  selectbox :: "string list \<Rightarrow> string"
  button :: bool

section \<open>Statements that may raise\<close>

type_synonym 'a py = "state \<Rightarrow> (exn + 'a) \<times> state"

definition ret :: "'a \<Rightarrow> 'a py" where
  "ret x s = (Inr x, s)"

definition raise :: "exn \<Rightarrow> 'a py" where
  "raise e s = (Inl e, s)"

definition bnd :: "'a py \<Rightarrow> ('a \<Rightarrow> 'b py) \<Rightarrow> 'b py" where
  "bnd m f s = (case m s of (Inl e, s') \<Rightarrow> (Inl e, s') | (Inr x, s') \<Rightarrow> f x s')"

definition seq :: "unit py \<Rightarrow> 'b py \<Rightarrow> 'b py" where
  "seq m n = bnd m (\<lambda>_. n)"

text \<open>\<^verbatim>\<open>try: m except Exception as e: h e\<close>\<close>

definition try_except :: "'a py \<Rightarrow> (exn \<Rightarrow> 'a py) \<Rightarrow> 'a py" where
  "try_except m h s = (case m s of (Inl e, s') \<Rightarrow> h e s' | (Inr x, s') \<Rightarrow> (Inr x, s'))"

definition emit :: "event \<Rightarrow> unit py" where
  "emit ev s = (Inr (), s\<lparr>trace := trace s @ [ev]\<rparr>)"

definition logger_info :: "string \<Rightarrow> unit py" where
  "logger_info msg = emit (Logged INFO msg)"

definition logger_error :: "string \<Rightarrow> unit py" where
  "logger_error msg = emit (Logged ERROR msg)"

definition print :: "string \<Rightarrow> unit py" where
  "print line = emit (Printed line)"

text \<open>\<^verbatim>\<open>with st.spinner(msg): body\<close>\<close>

definition with_spinner :: "string \<Rightarrow> 'a py \<Rightarrow> 'a py" where
  "with_spinner msg body = seq (emit (StSpinner msg)) body"

subsection \<open>Files\<close>

definition path_exists :: "string \<Rightarrow> bool py" where
  "path_exists path s = (Inr (files s path \<noteq> None), s)"

text \<open>\<^verbatim>\<open>open(path, "rb")\<close> and reading the whole file.\<close>

definition open_rb :: "string \<Rightarrow> string py" where
  "open_rb path s =
     (case files s path of
        None \<Rightarrow> (Inl (Exn FileNotFoundError path), s)
      | Some content \<Rightarrow> (Inr content, s))"

text \<open>\<^verbatim>\<open>open(path, "w")\<close> creates the file or truncates it.\<close>

definition open_w :: "string \<Rightarrow> unit py" where
  "open_w path s = (Inr (), s\<lparr>files := (files s)(path \<mapsto> []), trace := trace s @ [OpenW path]\<rparr>)"

text \<open>\<^verbatim>\<open>f.write(v)\<close> on a text file accepts a \<^verbatim>\<open>str\<close> only.\<close>

definition f_write :: "string \<Rightarrow> pyval \<Rightarrow> unit py" where
  "f_write path v s =
     (case v of
        PyStr t \<Rightarrow>
          (Inr (), s\<lparr>files := (files s)(path \<mapsto> (case files s path of None \<Rightarrow> [] | Some c \<Rightarrow> c) @ t),
                      trace := trace s @ [FWrite path v]\<rparr>)
      | PyEmptyList \<Rightarrow>
          (Inl (Exn TypeError ''write() argument must be str, not list''),
           s\<lparr>trace := trace s @ [FWrite path v]\<rparr>))"

section \<open>transcribe\_audio.py\<close>

text \<open>
  The module body: without a non-empty \<^verbatim>\<open>OPENAI_API_KEY\<close> the import raises.
\<close>

definition import_transcribe_audio :: "env \<Rightarrow> string py" where
  "import_transcribe_audio e =
     (case environ e ''OPENAI_API_KEY'' of
        None \<Rightarrow> raise (Exn ValueError ''API key is missing. Set OPENAI_API_KEY as an environment variable.'')
      | Some api_key \<Rightarrow>
          if api_key = [] then
            raise (Exn ValueError ''API key is missing. Set OPENAI_API_KEY as an environment variable.'')
          else ret api_key)"

definition transcriptions_create :: "env \<Rightarrow> string \<Rightarrow> string option py" where
  "transcriptions_create e audio_file s =
     (case audio_transcriptions_create e audio_file of
        Inl x \<Rightarrow> (Inl x, s\<lparr>trace := trace s @ [TranscriptionsCreate audio_file (Inl x)]\<rparr>)
      | Inr r \<Rightarrow> (Inr r, s\<lparr>trace := trace s @ [TranscriptionsCreate audio_file (Inr r)]\<rparr>))"

definition transcribe :: "env \<Rightarrow> string \<Rightarrow> pyval py" where
  "transcribe e audio_path =
     try_except
       (bnd (path_exists audio_path) (\<lambda>ex.
          if \<not> ex then raise (Exn FileNotFoundError (''Audio file not found: '' @ audio_path))
          else
            bnd (open_rb audio_path) (\<lambda>audio_file.
            bnd (transcriptions_create e audio_file) (\<lambda>transcription.
            seq (print (''Transcription received: '' @ repr_transcription e transcription))
              (case transcription of
                 Some text \<Rightarrow> ret (PyStr text)
               | None \<Rightarrow> ret PyEmptyList)))))
       (\<lambda>x. seq (print (''Error during transcription: '' @ exn_str x)) (ret PyEmptyList))"

section \<open>main.py: VideoProcessor\<close>

record video_processor =
  video_path :: string
  frames_dir :: string
  audio_path :: string
  transcripts_path :: string
  description_path :: string

text \<open>
  \<^verbatim>\<open>VideoProcessor.__init__\<close>. The output directories it creates are not modelled:
  a file of the model exists as soon as it is written.
\<close>

definition VideoProcessor :: "string \<Rightarrow> video_processor" where
  "VideoProcessor path =
     \<lparr>video_path = path,
      frames_dir = ''outputs/frames/'',
      audio_path = ''outputs/audio/audio.mp3'',
      transcripts_path = ''outputs/transcripts/transcript.txt'',
      description_path = ''outputs/description/description.txt''\<rparr>"

subsection \<open>The media extractor\<close>

text \<open>
  Modelled from the spec: \<^verbatim>\<open>extract_frames.py\<close> and \<^verbatim>\<open>extract_audio.py\<close> are not
  among the sources. The spec's Media Extractor writes still images to the target
  directory and one audio track to the target path, and signals ExtractionError when
  the source is unreadable or holds no decodable stream. The decoders themselves are
  parameters of the environment.
\<close>

fun write_all :: "string \<Rightarrow> (string \<times> string) list \<Rightarrow> (string \<rightharpoonup> string) \<Rightarrow> (string \<rightharpoonup> string)" where
  "write_all dir [] fs = fs"
| "write_all dir ((name, img) # rest) fs = write_all dir rest (fs(dir @ name \<mapsto> img))"

definition extract_frames :: "env \<Rightarrow> string \<Rightarrow> string \<Rightarrow> nat \<Rightarrow> unit py" where
  "extract_frames e path dir frame_interval s =
     (let s1 = s\<lparr>trace := trace s @ [ExtractFrames path dir frame_interval]\<rparr> in
      case files s path of
        None \<Rightarrow> (Inl (Exn ExtractionError path), s1)
      | Some video \<Rightarrow>
          (case decode_frames e video frame_interval of
             None \<Rightarrow> (Inl (Exn ExtractionError path), s1)
           | Some frames \<Rightarrow> (Inr (), s1\<lparr>files := write_all dir frames (files s1)\<rparr>)))"

definition extract_audio :: "env \<Rightarrow> string \<Rightarrow> string \<Rightarrow> unit py" where
  "extract_audio e path out s =
     (let s1 = s\<lparr>trace := trace s @ [ExtractAudio path out]\<rparr> in
      case files s path of
        None \<Rightarrow> (Inl (Exn ExtractionError path), s1)
      | Some video \<Rightarrow>
          (case decode_audio e video of
             None \<Rightarrow> (Inl (Exn ExtractionError path), s1)
           | Some audio \<Rightarrow> (Inr (), s1\<lparr>files := (files s1)(out \<mapsto> audio)\<rparr>)))"

subsection \<open>The chat service\<close>

text \<open>
  \<^verbatim>\<open>OpenAI()\<close> followed by \<^verbatim>\<open>client.chat.completions.create(...)\<close>: whatever goes
  wrong in either is an exception of the environment's choosing.
\<close>

definition chat_create :: "env \<Rightarrow> chat_request \<Rightarrow> string list py" where
  "chat_create e req s =
     (case chat_completions_create e (length (trace s)) req of
        Inl x \<Rightarrow> (Inl x, s\<lparr>trace := trace s @ [ChatCreate req (Inl x)]\<rparr>)
      | Inr choices \<Rightarrow> (Inr choices, s\<lparr>trace := trace s @ [ChatCreate req (Inr choices)]\<rparr>))"

text \<open>\<^verbatim>\<open>response.choices[0].message.content\<close>\<close>

definition first_content :: "string list \<Rightarrow> string py" where
  "first_content choices =
     (case choices of
        [] \<Rightarrow> raise (Exn IndexError ''list index out of range'')
      | c # _ \<Rightarrow> ret c)"

subsection \<open>detect\_language and translate\_text\<close>

definition detect_language :: "env \<Rightarrow> pyval \<Rightarrow> string option py" where
  "detect_language e text =
     try_except
       (\<lambda>s. case detect e text of
               Inl x \<Rightarrow> (Inl x, s)
             | Inr code \<Rightarrow> (Inr (Some code), s\<lparr>trace := trace s @ [DetectLanguage text (Some code)]\<rparr>))
       (\<lambda>x. seq (emit (DetectLanguage text None)) (ret None))"

definition translate_request :: "pyval \<Rightarrow> string \<Rightarrow> chat_request" where
  "translate_request text target_lang =
     \<lparr>model = ''gpt-4'',
      messages =
        [(''system'', PyStr (''Translate the following text to '' @ target_lang @ ''. Keep the meaning accurate.'')),
         (''user'', text)],
      temperature = 3 / 10\<rparr>"

definition translate_text :: "env \<Rightarrow> pyval \<Rightarrow> string \<Rightarrow> pyval py" where
  "translate_text e text target_lang =
     seq (emit (CallTranslateText text target_lang))
       (try_except
          (bnd (chat_create e (translate_request text target_lang)) (\<lambda>response.
           bnd (first_content response) (\<lambda>content.
           ret (PyStr content))))
          (\<lambda>x. seq (logger_error (''Translation failed: '' @ exn_str x)) (ret text)))"

subsection \<open>generate\_description\<close>

definition prompt_head :: string where
  "prompt_head =
     ''\<newline>            Create a concise product description in English based on this video transcript.'' @
     ''\<newline>            Format the description as line-by-line bullet points:'' @
     ''\<newline>            - Product name and type'' @
     ''\<newline>            - Key features (one per line)'' @
     ''\<newline>            - Condition'' @
     ''\<newline>            - Age suitability (if mentioned)'' @
     ''\<newline>            - Price (if mentioned)'' @
     ''\<newline>            '' @
     ''\<newline>            Keep it brief and factual. Use simple language. Only include information from the transcript.'' @
     ''\<newline>            Start each line with a hyphen and space.'' @
     ''\<newline>            '' @
     ''\<newline>            Transcript:'' @
     ''\<newline>            ''"

definition prompt_tail :: string where
  "prompt_tail = ''\<newline>            ''"

text \<open>\<^verbatim>\<open>prompt.format(transcript=transcript)\<close>\<close>

definition prompt_format :: "pyval \<Rightarrow> string" where
  "prompt_format transcript = prompt_head @ py_str transcript @ prompt_tail"

definition description_request :: "pyval \<Rightarrow> chat_request" where
  "description_request transcript =
     \<lparr>model = ''gpt-4'',
      messages = [(''user'', PyStr (prompt_format transcript))],
      temperature = 7 / 10\<rparr>"

definition generate_description :: "env \<Rightarrow> pyval \<Rightarrow> string \<Rightarrow> pyval py" where
  "generate_description e transcript target_lang =
     seq (emit (CallGenerateDescription transcript target_lang))
       (try_except
          (bnd (chat_create e (description_request transcript)) (\<lambda>response.
           bnd (first_content response) (\<lambda>content.
           bnd (if target_lang \<noteq> ''en'' then translate_text e (PyStr content) target_lang
                else ret (PyStr content)) (\<lambda>description.
           ret description))))
          (\<lambda>x. seq (logger_error (''Failed to generate description: '' @ exn_str x)) (raise x)))"

subsection \<open>process\_video\<close>

definition save_transcripts :: "video_processor \<Rightarrow> pyval \<Rightarrow> unit py" where
  "save_transcripts self transcript =
     seq (open_w (transcripts_path self)) (f_write (transcripts_path self) transcript)"

definition save_description :: "video_processor \<Rightarrow> pyval \<Rightarrow> unit py" where
  "save_description self description =
     seq (open_w (description_path self)) (f_write (description_path self) description)"

text \<open>The truth value of \<^verbatim>\<open>detected_lang\<close>: neither \<^verbatim>\<open>None\<close> nor the empty string.\<close>

fun truthy :: "string option \<Rightarrow> bool" where
  "truthy None = False"
| "truthy (Some code) = (code \<noteq> [])"

definition process_video :: "env \<Rightarrow> video_processor \<Rightarrow> string \<Rightarrow> (pyval \<times> pyval) py" where
  "process_video e self target_lang =
     seq (emit (CallProcessVideo target_lang))
    (try_except
       (seq (with_spinner ''Extracting frames...''
               (seq (extract_frames e (video_path self) (frames_dir self) 60)
                    (logger_info (''Extracted frames to '' @ frames_dir self))))
       (seq (with_spinner ''Extracting audio...''
               (seq (extract_audio e (video_path self) (audio_path self))
                    (logger_info (''Extracted audio to '' @ audio_path self))))
       (bnd (with_spinner ''Transcribing audio...''
               (bnd (transcribe e (audio_path self)) (\<lambda>transcript.
                bnd (detect_language e transcript) (\<lambda>detected_lang.
                bnd (if truthy detected_lang \<and> detected_lang \<noteq> Some target_lang then
                       with_spinner ''Translating transcription...''
                         (translate_text e transcript target_lang)
                     else ret transcript) (\<lambda>transcript.
                seq (save_transcripts self transcript)
               (seq (logger_info (''Saved transcripts to '' @ transcripts_path self))
                    (ret transcript))))))) (\<lambda>transcript.
        bnd (with_spinner ''Generating description...''
               (bnd (generate_description e transcript target_lang) (\<lambda>description.
                seq (save_description self description)
               (seq (logger_info (''Saved description to '' @ description_path self))
                    (ret description))))) (\<lambda>description.
        ret (transcript, description))))))
       (\<lambda>x. seq (logger_error (''Video processing failed: '' @ exn_str x)) (raise x)))"

section \<open>main.py: VideoApp and the script\<close>

text \<open>The dictionary \<^verbatim>\<open>target_languages\<close>, in insertion order.\<close>

record video_app =
  target_languages :: "(string \<times> string) list"

definition VideoApp :: video_app where
  "VideoApp =
     \<lparr>target_languages =
        [(''English'', ''en''), (''German'', ''de''), (''French'', ''fr''),
         (''Spanish'', ''es''), (''Italian'', ''it'')]\<rparr>"

text \<open>\<^verbatim>\<open>os.path.join(a, b)\<close> for a plain file name \<open>b\<close>: one slash between the two.\<close>

definition os_path_join :: "string \<Rightarrow> string \<Rightarrow> string" where
  "os_path_join a b = a @ ''/'' @ b"

text \<open>\<^verbatim>\<open>_upload_video\<close>: the uploaded file, if any, is a name and a buffer.\<close>

definition upload_video :: "env \<Rightarrow> string option py" where
  "upload_video e s =
     (case file_uploader e of
        Some (name, buffer) \<Rightarrow>
          (let file_path = os_path_join ''temp_uploads'' name in
           (Inr (Some file_path),
            s\<lparr>files := (files s)(file_path \<mapsto> buffer), trace := trace s @ [WriteBinary file_path]\<rparr>))
      | None \<Rightarrow> (Inr None, s))"

definition display_transcription :: "pyval \<Rightarrow> unit py" where
  "display_transcription transcript =
     seq (emit (StSubheader ''Transcription'')) (emit (StWrite transcript))"

definition display_description :: "pyval \<Rightarrow> unit py" where
  "display_description description =
     seq (emit (StSubheader ''Generated Description'')) (emit (StWrite description))"

definition run :: "env \<Rightarrow> video_app \<Rightarrow> unit py" where
  "run e self =
     seq (emit (StTitle ''Video Transcription & Description Generator''))
    (bnd (upload_video e) (\<lambda>uploaded.
       case uploaded of
         None \<Rightarrow> seq (emit (StWarning ''Please upload a video file to begin'')) (ret ())
       | Some path \<Rightarrow>
           seq (emit (StVideo path))
             (let target_lang = selectbox e (map fst (target_languages self));
                  processor = VideoProcessor path
              in if button e then
                   try_except
                     (bnd (with_spinner ''Processing video...''
                             (process_video e processor target_lang)) (\<lambda>(transcripts, description).
                      seq (emit (StSuccess ''Processing complete!''))
                     (seq (display_transcription transcripts)
                          (display_description description))))
                     (\<lambda>x. seq (emit (StError (''An error occurred: '' @ exn_str x)))
                              (logger_error (''Application error: '' @ exn_str x)))
                 else ret ())))"

text \<open>
  The script: its imports run first, \<^verbatim>\<open>from transcribe_audio import transcribe\<close>
  among them; only then is the application built and run.
\<close>

definition main :: "env \<Rightarrow> unit py" where
  "main e = bnd (import_transcribe_audio e) (\<lambda>api_key. run e VideoApp)"

section \<open>Observing a run\<close>

text \<open>The events that running \<open>m\<close> from \<open>s\<close> appends to the trace.\<close>

definition events_of :: "'a py \<Rightarrow> state \<Rightarrow> event list" where
  "events_of m s = drop (length (trace s)) (trace (snd (m s)))"

text \<open>The events of a run that precede the opening of the transcript file for writing.\<close>

definition before_transcript_saved :: "video_processor \<Rightarrow> event list \<Rightarrow> event list" where
  "before_transcript_saved self evs = takeWhile (\<lambda>ev. ev \<noteq> OpenW (transcripts_path self)) evs"

fun is_translate_call :: "event \<Rightarrow> bool" where
  "is_translate_call (CallTranslateText text target_lang) = True"
| "is_translate_call ev = False"

section \<open>The stages of process\_video\<close>

text \<open>
  The events that no statement below has to tell apart: the widgets of the user
  interface, log records, printed lines, the upload, and the calls of the media
  extractor and of the speech-to-text service. The others are the calls of the three
  methods, the detector and the chat service, and the writes of the two text files.
\<close>

fun quiet :: "event \<Rightarrow> bool" where
  "quiet (DetectLanguage x d) = False"
| "quiet (CallProcessVideo l) = False"
| "quiet (CallTranslateText x l) = False"
| "quiet (CallGenerateDescription x l) = False"
| "quiet (ChatCreate q r) = False"
| "quiet (OpenW p) = False"
| "quiet (FWrite p v) = False"
| "quiet ev = True"

text \<open>What \<^verbatim>\<open>translate_text\<close> returns and appends, given the outcome \<open>r\<close> of its chat call.\<close>

definition translation_result :: "pyval \<Rightarrow> exn + string list \<Rightarrow> pyval" where
  "translation_result text r = (case r of Inr (c # cs) \<Rightarrow> PyStr c | _ \<Rightarrow> text)"

definition translation_events :: "pyval \<Rightarrow> string \<Rightarrow> exn + string list \<Rightarrow> event list" where
  "translation_events text lang r =
     [CallTranslateText text lang, ChatCreate (translate_request text lang) r] @
     (case r of
        Inl x \<Rightarrow> [Logged ERROR (''Translation failed: '' @ exn_str x)]
      | Inr [] \<Rightarrow> [Logged ERROR ''Translation failed: list index out of range'']
      | Inr (c # cs) \<Rightarrow> [])"

text \<open>
  The \<^verbatim>\<open>with\<close> blocks of \<^verbatim>\<open>process_video\<close>, named: the two extraction blocks,
  the transcription block and the description block.
\<close>

definition extraction :: "env \<Rightarrow> video_processor \<Rightarrow> unit py" where
  "extraction e self =
     seq (with_spinner ''Extracting frames...''
            (seq (extract_frames e (video_path self) (frames_dir self) 60)
                 (logger_info (''Extracted frames to '' @ frames_dir self))))
         (with_spinner ''Extracting audio...''
            (seq (extract_audio e (video_path self) (audio_path self))
                 (logger_info (''Extracted audio to '' @ audio_path self))))"

definition transcribing :: "env \<Rightarrow> video_processor \<Rightarrow> string \<Rightarrow> pyval py" where
  "transcribing e self target_lang =
     with_spinner ''Transcribing audio...''
       (bnd (transcribe e (audio_path self)) (\<lambda>transcript.
        bnd (detect_language e transcript) (\<lambda>detected_lang.
        bnd (if truthy detected_lang \<and> detected_lang \<noteq> Some target_lang then
               with_spinner ''Translating transcription...''
                 (translate_text e transcript target_lang)
             else ret transcript) (\<lambda>transcript.
        seq (save_transcripts self transcript)
       (seq (logger_info (''Saved transcripts to '' @ transcripts_path self))
            (ret transcript))))))"

definition describing :: "env \<Rightarrow> video_processor \<Rightarrow> pyval \<Rightarrow> string \<Rightarrow> pyval py" where
  "describing e self transcript target_lang =
     with_spinner ''Generating description...''
       (bnd (generate_description e transcript target_lang) (\<lambda>description.
        seq (save_description self description)
       (seq (logger_info (''Saved description to '' @ description_path self))
            (ret description))))"

text \<open>What \<^verbatim>\<open>detect_language\<close> returns on \<open>x\<close>.\<close>

definition detected :: "env \<Rightarrow> pyval \<Rightarrow> string option" where
  "detected e x = (case detect e x of Inl y \<Rightarrow> None | Inr c \<Rightarrow> Some c)"

definition transcript_translation :: "pyval \<Rightarrow> string option \<Rightarrow> string \<Rightarrow> exn + string list \<Rightarrow> event list" where
  "transcript_translation x d lang r =
     (if truthy d \<and> d \<noteq> Some lang
      then StSpinner ''Translating transcription...'' # translation_events x lang r else [])"

definition final_transcript :: "pyval \<Rightarrow> string option \<Rightarrow> string \<Rightarrow> exn + string list \<Rightarrow> pyval" where
  "final_transcript x d lang r = (if truthy d \<and> d \<noteq> Some lang then translation_result x r else x)"

definition description_translation :: "string \<Rightarrow> string \<Rightarrow> exn + string list \<Rightarrow> event list" where
  "description_translation c lang r = (if lang \<noteq> ''en'' then translation_events (PyStr c) lang r else [])"

definition final_description :: "string \<Rightarrow> string \<Rightarrow> exn + string list \<Rightarrow> pyval" where
  "final_description c lang r = (if lang \<noteq> ''en'' then translation_result (PyStr c) r else PyStr c)"


section \<open>Concrete environments\<close>

text \<open>
  A run in which everything works: an uploaded clip with English speech, the first
  option of the language selector left as it is, and the button pressed. The detector
  behaves as the langdetect library does on degenerate input: it raises on the empty
  string and on a value that is not a string.
\<close>

definition working_env :: env where
  "working_env =
     \<lparr>environ = [''OPENAI_API_KEY'' \<mapsto> ''sk-test''],
      decode_frames = (\<lambda>video n. Some [(''frame_0.jpg'', ''jpeg'')]),
      decode_audio = (\<lambda>video. Some ''mp3''),
      audio_transcriptions_create = (\<lambda>audio. Inr (Some ''This is a used bicycle, good condition'')),
      repr_transcription = (\<lambda>r. ''Transcription'') ,
      detect = (\<lambda>v. case v of
                  PyStr t \<Rightarrow> if t = [] then Inl (Exn LangDetectException ''No features in text.'')
                            else Inr ''en''
                | PyEmptyList \<Rightarrow> Inl (Exn TypeError ''expected string or bytes-like object'')),
      chat_completions_create =
        (\<lambda>n req. if length (messages req) = 1 then Inr [''- Used bicycle'']
                  else Inr [''Gebrauchtes Fahrrad'']),
      file_uploader = Some (''clip.mp4'', ''video''),
      selectbox = (\<lambda>options. hd options),
      button = True\<rparr>"

text \<open>The services cannot be reached.\<close>

definition offline_env :: env where
  "offline_env =
     working_env
       \<lparr>audio_transcriptions_create := (\<lambda>audio. Inl (Exn OpenAIError ''Connection error.'')),
        chat_completions_create := (\<lambda>n req. Inl (Exn OpenAIError ''Connection error.''))\<rparr>"

text \<open>A clip without speech: the transcription succeeds with an empty text.\<close>

definition silent_env :: env where
  "silent_env = working_env\<lparr>audio_transcriptions_create := (\<lambda>audio. Inr (Some []))\<rparr>"

text \<open>Only the description request fails; translation requests are answered.\<close>

definition generation_down_env :: env where
  "generation_down_env =
     working_env
       \<lparr>chat_completions_create :=
          (\<lambda>n req. if length (messages req) = 1 then Inl (Exn OpenAIError ''Rate limit reached.'')
                    else Inr [''Gebrauchtes Fahrrad''])\<rparr>"

text \<open>The credential is not set.\<close>

definition no_key_env :: env where
  "no_key_env = working_env\<lparr>environ := Map.empty\<rparr>"

text \<open>The state after the upload of \<^verbatim>\<open>clip.mp4\<close>, and the state before anything ran.\<close>

definition uploaded_state :: state where
  "uploaded_state = \<lparr>files = [''temp_uploads/clip.mp4'' \<mapsto> ''video''], trace = []\<rparr>"

definition initial_state :: state where
  "initial_state = \<lparr>files = Map.empty, trace = []\<rparr>"

lemmas py_defs =
  ret_def raise_def bnd_def seq_def try_except_def emit_def logger_info_def logger_error_def
  print_def with_spinner_def path_exists_def open_rb_def open_w_def f_write_def

lemmas env_defs = working_env_def offline_env_def silent_env_def generation_down_env_def no_key_env_def
  uploaded_state_def initial_state_def

lemmas code_defs = process_video_def transcribe_def transcriptions_create_def detect_language_def
  translate_text_def generate_description_def chat_create_def first_content_def save_transcripts_def
  save_description_def extract_frames_def extract_audio_def VideoProcessor_def
  translate_request_def description_request_def events_of_def Let_def

section \<open>What each function does\<close>

lemma transcribe_summary:
  "\<exists>v evs. transcribe e p s = (Inr v, s\<lparr>trace := trace s @ evs\<rparr>) \<and> list_all quiet evs"
  by (auto simp: transcribe_def transcriptions_create_def py_defs split: option.splits sum.splits)

lemma detect_language_eq:
  "detect_language e v s =
     (case detect e v of
        Inl x \<Rightarrow> (Inr None, s\<lparr>trace := trace s @ [DetectLanguage v None]\<rparr>)
      | Inr c \<Rightarrow> (Inr (Some c), s\<lparr>trace := trace s @ [DetectLanguage v (Some c)]\<rparr>))"
  by (auto simp: detect_language_def py_defs split: sum.splits)

lemma translate_text_eq:
  "translate_text e text lang s =
     (Inr (translation_result text (chat_completions_create e (Suc (length (trace s))) (translate_request text lang))),
      s\<lparr>trace := trace s @ translation_events text lang
          (chat_completions_create e (Suc (length (trace s))) (translate_request text lang))\<rparr>)"
  by (auto simp: translate_text_def chat_create_def first_content_def py_defs translation_result_def
        translation_events_def split: sum.splits list.splits)

lemma generate_description_eq:
  "generate_description e t lang s =
     (let g = chat_completions_create e (Suc (length (trace s))) (description_request t);
          s1 = s\<lparr>trace := trace s @ [CallGenerateDescription t lang, ChatCreate (description_request t) g]\<rparr>
      in case g of
           Inl x \<Rightarrow> (Inl x, s1\<lparr>trace := trace s1 @ [Logged ERROR (''Failed to generate description: '' @ exn_str x)]\<rparr>)
         | Inr [] \<Rightarrow> (Inl (Exn IndexError ''list index out of range''),
                      s1\<lparr>trace := trace s1 @ [Logged ERROR ''Failed to generate description: list index out of range'']\<rparr>)
         | Inr (c # cs) \<Rightarrow>
             if lang \<noteq> ''en'' then translate_text e (PyStr c) lang s1 else (Inr (PyStr c), s1))"
  by (auto simp: generate_description_def translate_text_def chat_create_def first_content_def py_defs Let_def
        split: sum.splits list.splits)

lemma save_eq:
  "seq (open_w p) (f_write p v) s =
     (case v of
        PyStr t \<Rightarrow> (Inr (), s\<lparr>files := (files s)(p \<mapsto> t), trace := trace s @ [OpenW p, FWrite p v]\<rparr>)
      | PyEmptyList \<Rightarrow>
          (Inl (Exn TypeError ''write() argument must be str, not list''),
           s\<lparr>files := (files s)(p \<mapsto> []), trace := trace s @ [OpenW p, FWrite p v]\<rparr>))"
  by (auto simp: py_defs split: pyval.splits)


lemma state_eq_iff: "(a = b) = (files a = files b \<and> trace a = trace b)" for a b :: state
  by (cases a; cases b) auto

lemma seq_assoc: "seq a (seq b k) = seq (seq a b) k"
  by (auto simp: seq_def bnd_def fun_eq_iff split: sum.splits prod.splits)

lemma process_video_blocks:
  "process_video e self lang =
     seq (emit (CallProcessVideo lang))
       (try_except
          (seq (extraction e self)
          (bnd (transcribing e self lang) (\<lambda>transcript.
           bnd (describing e self transcript lang) (\<lambda>description.
           ret (transcript, description)))))
          (\<lambda>x. seq (logger_error (''Video processing failed: '' @ exn_str x)) (raise x)))"
  by (simp add: process_video_def extraction_def transcribing_def describing_def seq_assoc)

lemma final_description_str: "\<exists>t. final_description c lang r = PyStr t"
  by (auto simp: final_description_def translation_result_def split: sum.splits list.splits)

lemma extraction_summary:
  "\<exists>r F evs. extraction e self s = (r, s\<lparr>files := F, trace := trace s @ evs\<rparr>) \<and> list_all quiet evs"
  by (auto simp: extraction_def extract_frames_def extract_audio_def py_defs Let_def state_eq_iff
        split: option.splits sum.splits)

lemma transcribing_summary:
  "\<exists>pre x r. list_all quiet pre \<and>
     transcribing e self lang s =
       (case final_transcript x (detected e x) lang r of
          PyStr t \<Rightarrow>
            (Inr (PyStr t),
             s\<lparr>files := (files s)(transcripts_path self \<mapsto> t),
               trace := trace s @ pre @ DetectLanguage x (detected e x) #
                 transcript_translation x (detected e x) lang r @
                 [OpenW (transcripts_path self), FWrite (transcripts_path self) (PyStr t),
                  Logged INFO (''Saved transcripts to '' @ transcripts_path self)]\<rparr>)
        | PyEmptyList \<Rightarrow>
            (Inl (Exn TypeError ''write() argument must be str, not list''),
             s\<lparr>files := (files s)(transcripts_path self \<mapsto> []),
               trace := trace s @ pre @ DetectLanguage x (detected e x) #
                 transcript_translation x (detected e x) lang r @
                 [OpenW (transcripts_path self), FWrite (transcripts_path self) PyEmptyList]\<rparr>))"
proof -
  let ?s0 = "s\<lparr>trace := trace s @ [StSpinner ''Transcribing audio...'']\<rparr>"
  obtain x evs where tr: "transcribe e (audio_path self) ?s0 = (Inr x, ?s0\<lparr>trace := trace ?s0 @ evs\<rparr>)"
    and q: "list_all quiet evs"
    using transcribe_summary by blast
  let ?pre = "StSpinner ''Transcribing audio...'' # evs"
  let ?r = "chat_completions_create e (Suc (Suc (Suc (Suc (length (trace s) + length evs)))))
              (translate_request x lang)"
  have "list_all quiet ?pre" using q by simp
  moreover have "transcribing e self lang s =
       (case final_transcript x (detected e x) lang ?r of
          PyStr t \<Rightarrow>
            (Inr (PyStr t),
             s\<lparr>files := (files s)(transcripts_path self \<mapsto> t),
               trace := trace s @ ?pre @ DetectLanguage x (detected e x) #
                 transcript_translation x (detected e x) lang ?r @
                 [OpenW (transcripts_path self), FWrite (transcripts_path self) (PyStr t),
                  Logged INFO (''Saved transcripts to '' @ transcripts_path self)]\<rparr>)
        | PyEmptyList \<Rightarrow>
            (Inl (Exn TypeError ''write() argument must be str, not list''),
             s\<lparr>files := (files s)(transcripts_path self \<mapsto> []),
               trace := trace s @ ?pre @ DetectLanguage x (detected e x) #
                 transcript_translation x (detected e x) lang ?r @
                 [OpenW (transcripts_path self), FWrite (transcripts_path self) PyEmptyList]\<rparr>))"
    using tr
    by (auto simp: transcribing_def with_spinner_def seq_def bnd_def emit_def ret_def logger_info_def
          detect_language_eq translate_text_eq save_transcripts_def open_w_def f_write_def
          final_transcript_def transcript_translation_def detected_def
          split: sum.splits pyval.splits)
  ultimately show ?thesis by blast
qed

lemma describing_summary:
  "\<exists>g r. describing e self t lang s =
     (case g of
        Inl y \<Rightarrow>
          (Inl y,
           s\<lparr>trace := trace s @
               [StSpinner ''Generating description...'', CallGenerateDescription t lang,
                ChatCreate (description_request t) g,
                Logged ERROR (''Failed to generate description: '' @ exn_str y)]\<rparr>)
      | Inr [] \<Rightarrow>
          (Inl (Exn IndexError ''list index out of range''),
           s\<lparr>trace := trace s @
               [StSpinner ''Generating description...'', CallGenerateDescription t lang,
                ChatCreate (description_request t) g,
                Logged ERROR ''Failed to generate description: list index out of range'']\<rparr>)
      | Inr (c # cs) \<Rightarrow>
          (Inr (final_description c lang r),
           s\<lparr>files := (files s)(description_path self \<mapsto> py_str (final_description c lang r)),
             trace := trace s @
               [StSpinner ''Generating description...'', CallGenerateDescription t lang,
                ChatCreate (description_request t) g] @
               description_translation c lang r @
               [OpenW (description_path self), FWrite (description_path self) (final_description c lang r),
                Logged INFO (''Saved description to '' @ description_path self)]\<rparr>))"
proof -
  let ?g = "chat_completions_create e (Suc (Suc (length (trace s)))) (description_request t)"
  show ?thesis
  proof (cases ?g)
    case (Inl y)
    then show ?thesis
      by (intro exI[of _ ?g])
         (simp add: describing_def with_spinner_def seq_def bnd_def emit_def generate_description_eq Let_def)
  next
    case (Inr choices)
    show ?thesis
    proof (cases choices)
      case Nil
      with Inr show ?thesis
        by (intro exI[of _ ?g])
           (simp add: describing_def with_spinner_def seq_def bnd_def emit_def generate_description_eq Let_def)
    next
      case (Cons c cs)
      let ?r = "chat_completions_create e (Suc (Suc (Suc (Suc (length (trace s))))))
                  (translate_request (PyStr c) lang)"
      obtain d where d: "final_description c lang ?r = PyStr d"
        using final_description_str by blast
      with Inr Cons show ?thesis
        by (intro exI[of _ ?g] exI[of _ ?r])
           (auto simp: describing_def with_spinner_def seq_def bnd_def emit_def ret_def logger_info_def
              generate_description_eq translate_text_eq Let_def save_description_def open_w_def f_write_def
              final_description_def description_translation_def translation_events_def
              split: if_splits)
    qed
  qed
qed

lemma quiet_mem: "list_all quiet pre \<Longrightarrow> \<not> quiet ev \<Longrightarrow> ev \<notin> set pre"
  by (auto simp: list_all_iff)

lemma takeWhile_quiet:
  "list_all quiet pre \<Longrightarrow>
   takeWhile (\<lambda>ev. ev \<noteq> OpenW p) (pre @ rest) = pre @ takeWhile (\<lambda>ev. ev \<noteq> OpenW p) rest"
  by (rule takeWhile_append2) (auto simp: list_all_iff)

lemma translation_events_mem:
  "CallTranslateText y l \<in> set (translation_events x lang r) \<longleftrightarrow> y = x \<and> l = lang"
  "ChatCreate q g \<in> set (translation_events x lang r) \<longleftrightarrow> q = translate_request x lang \<and> g = r"
  "DetectLanguage a b \<notin> set (translation_events x lang r)"
  "CallGenerateDescription t l \<notin> set (translation_events x lang r)"
  "CallProcessVideo l \<notin> set (translation_events x lang r)"
  "OpenW p \<notin> set (translation_events x lang r)"
  "FWrite p v \<notin> set (translation_events x lang r)"
  by (auto simp: translation_events_def split: sum.splits list.splits)

lemma takeWhile_translation_events:
  "takeWhile (\<lambda>ev. ev \<noteq> OpenW p) (translation_events x lang r @ rest)
     = translation_events x lang r @ takeWhile (\<lambda>ev. ev \<noteq> OpenW p) rest"
  by (rule takeWhile_append2) (auto simp: translation_events_def split: sum.splits list.splits)

lemma request_distinct: "translate_request x lang \<noteq> description_request t"
  by (simp add: translate_request_def description_request_def)

lemma process_video_cases:
  obtains
    (extraction_failed) y F evs where
      "process_video e self lang s =
         (Inl y, s\<lparr>files := F, trace := trace s @ CallProcessVideo lang # evs\<rparr>)"
      "list_all quiet evs"
  | (save_failed) F pre x r where
      "list_all quiet pre"
      "final_transcript x (detected e x) lang r = PyEmptyList"
      "process_video e self lang s =
         (Inl (Exn TypeError ''write() argument must be str, not list''),
          s\<lparr>files := F(transcripts_path self \<mapsto> []),
            trace := trace s @ CallProcessVideo lang # pre @ DetectLanguage x (detected e x) #
              transcript_translation x (detected e x) lang r @
              [OpenW (transcripts_path self), FWrite (transcripts_path self) PyEmptyList,
               Logged ERROR ''Video processing failed: write() argument must be str, not list'']\<rparr>)"
  | (generation_failed) F pre x r t g y where
      "list_all quiet pre"
      "final_transcript x (detected e x) lang r = PyStr t"
      "g = Inl y \<or> g = Inr [] \<and> y = Exn IndexError ''list index out of range''"
      "process_video e self lang s =
         (Inl y,
          s\<lparr>files := F(transcripts_path self \<mapsto> t),
            trace := trace s @ CallProcessVideo lang # pre @ DetectLanguage x (detected e x) #
              transcript_translation x (detected e x) lang r @
              [OpenW (transcripts_path self), FWrite (transcripts_path self) (PyStr t),
               Logged INFO (''Saved transcripts to '' @ transcripts_path self),
               StSpinner ''Generating description...'',
               CallGenerateDescription (PyStr t) lang,
               ChatCreate (description_request (PyStr t)) g,
               Logged ERROR (''Failed to generate description: '' @ exn_str y),
               Logged ERROR (''Video processing failed: '' @ exn_str y)]\<rparr>)"
  | (completed) F pre x r t c cs r2 where
      "list_all quiet pre"
      "final_transcript x (detected e x) lang r = PyStr t"
      "process_video e self lang s =
         (Inr (PyStr t, final_description c lang r2),
          s\<lparr>files := F(transcripts_path self \<mapsto> t,
                        description_path self \<mapsto> py_str (final_description c lang r2)),
            trace := trace s @ CallProcessVideo lang # pre @ DetectLanguage x (detected e x) #
              transcript_translation x (detected e x) lang r @
              [OpenW (transcripts_path self), FWrite (transcripts_path self) (PyStr t),
               Logged INFO (''Saved transcripts to '' @ transcripts_path self),
               StSpinner ''Generating description...'',
               CallGenerateDescription (PyStr t) lang,
               ChatCreate (description_request (PyStr t)) (Inr (c # cs))] @
              description_translation c lang r2 @
              [OpenW (description_path self), FWrite (description_path self) (final_description c lang r2),
               Logged INFO (''Saved description to '' @ description_path self)]\<rparr>)"
proof -
  let ?s0 = "s\<lparr>trace := trace s @ [CallProcessVideo lang]\<rparr>"
  obtain r0 F evs where ex0: "extraction e self ?s0 = (r0, ?s0\<lparr>files := F, trace := trace ?s0 @ evs\<rparr>)"
    and qe: "list_all quiet evs"
    using extraction_summary by blast
  let ?s1 = "s\<lparr>files := F, trace := trace s @ CallProcessVideo lang # evs\<rparr>"
  have ex: "extraction e self ?s0 = (r0, ?s1)"
    using ex0 by simp
  show thesis
  proof (cases r0)
    case (Inl y)
    have "process_video e self lang s =
            (Inl y, s\<lparr>files := F, trace := trace s @ CallProcessVideo lang #
               (evs @ [Logged ERROR (''Video processing failed: '' @ exn_str y)])\<rparr>)"
      using ex Inl
      by (simp add: process_video_blocks seq_def bnd_def try_except_def emit_def logger_error_def raise_def)
    moreover have "list_all quiet (evs @ [Logged ERROR (''Video processing failed: '' @ exn_str y)])"
      using qe by simp
    ultimately show thesis by (rule extraction_failed)
  next
    case (Inr u)
    obtain pre x r where qp: "list_all quiet pre"
      and tr0: "transcribing e self lang ?s1 =
       (case final_transcript x (detected e x) lang r of
          PyStr t \<Rightarrow>
            (Inr (PyStr t),
             ?s1\<lparr>files := (files ?s1)(transcripts_path self \<mapsto> t),
               trace := trace ?s1 @ pre @ DetectLanguage x (detected e x) #
                 transcript_translation x (detected e x) lang r @
                 [OpenW (transcripts_path self), FWrite (transcripts_path self) (PyStr t),
                  Logged INFO (''Saved transcripts to '' @ transcripts_path self)]\<rparr>)
        | PyEmptyList \<Rightarrow>
            (Inl (Exn TypeError ''write() argument must be str, not list''),
             ?s1\<lparr>files := (files ?s1)(transcripts_path self \<mapsto> []),
               trace := trace ?s1 @ pre @ DetectLanguage x (detected e x) #
                 transcript_translation x (detected e x) lang r @
                 [OpenW (transcripts_path self), FWrite (transcripts_path self) PyEmptyList]\<rparr>))"
      using transcribing_summary by blast
    have qq: "list_all quiet (evs @ pre)" using qe qp by simp
    show thesis
    proof (cases "final_transcript x (detected e x) lang r")
      case PyEmptyList
      have "process_video e self lang s =
         (Inl (Exn TypeError ''write() argument must be str, not list''),
          s\<lparr>files := F(transcripts_path self \<mapsto> []),
            trace := trace s @ CallProcessVideo lang # (evs @ pre) @ DetectLanguage x (detected e x) #
              transcript_translation x (detected e x) lang r @
              [OpenW (transcripts_path self), FWrite (transcripts_path self) PyEmptyList,
               Logged ERROR ''Video processing failed: write() argument must be str, not list'']\<rparr>)"
        using ex Inr tr0 PyEmptyList
        by (simp add: process_video_blocks seq_def bnd_def try_except_def emit_def logger_error_def raise_def)
      with qq PyEmptyList show thesis by (rule save_failed)
    next
      case (PyStr t)
      let ?s2 = "s\<lparr>files := F(transcripts_path self \<mapsto> t),
               trace := trace s @ CallProcessVideo lang # evs @ pre @ DetectLanguage x (detected e x) #
                 transcript_translation x (detected e x) lang r @
                 [OpenW (transcripts_path self), FWrite (transcripts_path self) (PyStr t),
                  Logged INFO (''Saved transcripts to '' @ transcripts_path self)]\<rparr>"
      have tr: "transcribing e self lang ?s1 = (Inr (PyStr t), ?s2)"
        using tr0 PyStr by simp
      obtain g r2 where de0: "describing e self (PyStr t) lang ?s2 =
     (case g of
        Inl y \<Rightarrow>
          (Inl y,
           ?s2\<lparr>trace := trace ?s2 @
               [StSpinner ''Generating description...'', CallGenerateDescription (PyStr t) lang,
                ChatCreate (description_request (PyStr t)) g,
                Logged ERROR (''Failed to generate description: '' @ exn_str y)]\<rparr>)
      | Inr [] \<Rightarrow>
          (Inl (Exn IndexError ''list index out of range''),
           ?s2\<lparr>trace := trace ?s2 @
               [StSpinner ''Generating description...'', CallGenerateDescription (PyStr t) lang,
                ChatCreate (description_request (PyStr t)) g,
                Logged ERROR ''Failed to generate description: list index out of range'']\<rparr>)
      | Inr (c # cs) \<Rightarrow>
          (Inr (final_description c lang r2),
           ?s2\<lparr>files := (files ?s2)(description_path self \<mapsto> py_str (final_description c lang r2)),
             trace := trace ?s2 @
               [StSpinner ''Generating description...'', CallGenerateDescription (PyStr t) lang,
                ChatCreate (description_request (PyStr t)) g] @
               description_translation c lang r2 @
               [OpenW (description_path self), FWrite (description_path self) (final_description c lang r2),
                Logged INFO (''Saved description to '' @ description_path self)]\<rparr>))"
        using describing_summary by blast
      show thesis
      proof (cases g)
        case (Inl y)
        have "process_video e self lang s =
         (Inl y,
          s\<lparr>files := F(transcripts_path self \<mapsto> t),
            trace := trace s @ CallProcessVideo lang # (evs @ pre) @ DetectLanguage x (detected e x) #
              transcript_translation x (detected e x) lang r @
              [OpenW (transcripts_path self), FWrite (transcripts_path self) (PyStr t),
               Logged INFO (''Saved transcripts to '' @ transcripts_path self),
               StSpinner ''Generating description...'',
               CallGenerateDescription (PyStr t) lang,
               ChatCreate (description_request (PyStr t)) g,
               Logged ERROR (''Failed to generate description: '' @ exn_str y),
               Logged ERROR (''Video processing failed: '' @ exn_str y)]\<rparr>)"
          using ex Inr tr de0 Inl
          by (simp add: process_video_blocks seq_def bnd_def try_except_def emit_def logger_error_def raise_def)
        moreover have "g = Inl y \<or> g = Inr [] \<and> y = Exn IndexError ''list index out of range''"
          using Inl by simp
        ultimately show thesis using qq PyStr by (intro generation_failed)
      next
        case (Inr choices)
        note g = this
        show thesis
        proof (cases choices)
          case Nil
          let ?y = "Exn IndexError ''list index out of range''"
          have "process_video e self lang s =
           (Inl ?y,
            s\<lparr>files := F(transcripts_path self \<mapsto> t),
              trace := trace s @ CallProcessVideo lang # (evs @ pre) @ DetectLanguage x (detected e x) #
                transcript_translation x (detected e x) lang r @
                [OpenW (transcripts_path self), FWrite (transcripts_path self) (PyStr t),
                 Logged INFO (''Saved transcripts to '' @ transcripts_path self),
                 StSpinner ''Generating description...'',
                 CallGenerateDescription (PyStr t) lang,
                 ChatCreate (description_request (PyStr t)) g,
                 Logged ERROR (''Failed to generate description: '' @ exn_str ?y),
                 Logged ERROR (''Video processing failed: '' @ exn_str ?y)]\<rparr>)"
            using ex \<open>r0 = Inr u\<close> tr de0 g Nil
            by (simp add: process_video_blocks seq_def bnd_def try_except_def emit_def logger_error_def raise_def)
          moreover have "g = Inl ?y \<or> g = Inr [] \<and> ?y = Exn IndexError ''list index out of range''"
            using g Nil by simp
          ultimately show thesis using qq PyStr by (intro generation_failed)
        next
          case (Cons c cs)
          have "process_video e self lang s =
         (Inr (PyStr t, final_description c lang r2),
          s\<lparr>files := F(transcripts_path self \<mapsto> t,
                        description_path self \<mapsto> py_str (final_description c lang r2)),
            trace := trace s @ CallProcessVideo lang # (evs @ pre) @ DetectLanguage x (detected e x) #
              transcript_translation x (detected e x) lang r @
              [OpenW (transcripts_path self), FWrite (transcripts_path self) (PyStr t),
               Logged INFO (''Saved transcripts to '' @ transcripts_path self),
               StSpinner ''Generating description...'',
               CallGenerateDescription (PyStr t) lang,
               ChatCreate (description_request (PyStr t)) (Inr (c # cs))] @
              description_translation c lang r2 @
              [OpenW (description_path self), FWrite (description_path self) (final_description c lang r2),
               Logged INFO (''Saved description to '' @ description_path self)]\<rparr>)"
            using ex \<open>r0 = Inr u\<close> tr de0 g Cons
            by (simp add: process_video_blocks seq_def bnd_def try_except_def emit_def ret_def)
          with qq PyStr show thesis by (intro completed)
        qed
      qed
    qed
  qed
qed

lemma quiet_not_translate: "list_all quiet pre \<Longrightarrow> ev \<in> set pre \<Longrightarrow> \<not> is_translate_call ev"
  by (cases ev) (auto simp: list_all_iff)

lemma translation_events_translate_call:
  "ev \<in> set (translation_events x lang r) \<Longrightarrow> is_translate_call ev \<Longrightarrow> ev = CallTranslateText x lang"
  by (auto simp: translation_events_def split: sum.splits list.splits)

lemma translation_events_has_call:
  "\<exists>ev \<in> set (translation_events x lang r). is_translate_call ev"
  by (auto simp: translation_events_def)

lemma process_video_trace_extends:
  "trace (snd (process_video e self lang s)) = trace s @ events_of (process_video e self lang) s"
  by (cases rule: process_video_cases[of e self lang s]) (simp_all add: events_of_def)

lemmas event_simps = events_of_def before_transcript_saved_def takeWhile_quiet quiet_mem
  translation_events_mem takeWhile_translation_events request_distinct request_distinct[symmetric]

lemma takeWhile_append_mono: "x \<in> set (takeWhile P xs) \<Longrightarrow> x \<in> set (takeWhile P (xs @ ys))"
  by (induction xs) (auto split: if_splits)

lemma detected_sym: "(Some d = detected e x) = (detected e x = Some d)"
  by auto

lemma process_video_events_translate:
  assumes evs: "evs = events_of (process_video e self lang) s"
  shows "CallProcessVideo l \<in> set evs \<longleftrightarrow> l = lang"
    and "DetectLanguage x (Some d) \<in> set evs \<Longrightarrow> d \<noteq> [] \<Longrightarrow> d \<noteq> lang \<Longrightarrow>
           CallTranslateText x lang \<in> set (takeWhile (\<lambda>ev. ev \<noteq> OpenW (transcripts_path self)) evs)"
    and "ChatCreate (description_request t) (Inr (c # cs)) \<in> set evs \<Longrightarrow> lang \<noteq> ''en'' \<Longrightarrow>
           CallTranslateText (PyStr c) lang \<in> set evs"
proof -
  show "CallProcessVideo l \<in> set evs \<longleftrightarrow> l = lang"
    by (cases rule: process_video_cases[of e self lang s])
       (auto simp: evs event_simps transcript_translation_def description_translation_def split: if_splits)
  show "CallTranslateText x lang \<in> set (takeWhile (\<lambda>ev. ev \<noteq> OpenW (transcripts_path self)) evs)"
    if "DetectLanguage x (Some d) \<in> set evs" "d \<noteq> []" "d \<noteq> lang"
    using that
    by (cases rule: process_video_cases[of e self lang s])
       (auto simp: evs event_simps detected_sym transcript_translation_def description_translation_def
          split: if_splits)
  show "CallTranslateText (PyStr c) lang \<in> set evs"
    if "ChatCreate (description_request t) (Inr (c # cs)) \<in> set evs" "lang \<noteq> ''en''"
    using that
    by (cases rule: process_video_cases[of e self lang s])
       (auto simp: evs event_simps transcript_translation_def description_translation_def split: if_splits)
qed

lemma run_events:
  assumes up: "file_uploader e = Some (name, buffer)" and bt: "button e"
  shows "\<exists>post. list_all quiet post \<and>
     events_of (run e VideoApp) s =
       [StTitle ''Video Transcription & Description Generator'',
        WriteBinary (os_path_join ''temp_uploads'' name), StVideo (os_path_join ''temp_uploads'' name),
        StSpinner ''Processing video...''] @
       events_of (process_video e (VideoProcessor (os_path_join ''temp_uploads'' name))
                    (selectbox e (map fst (target_languages VideoApp))))
         (s\<lparr>files := (files s)(os_path_join ''temp_uploads'' name \<mapsto> buffer),
            trace := trace s @
              [StTitle ''Video Transcription & Description Generator'',
               WriteBinary (os_path_join ''temp_uploads'' name), StVideo (os_path_join ''temp_uploads'' name),
               StSpinner ''Processing video...'']\<rparr>) @ post"
proof -
  define p where "p = os_path_join ''temp_uploads'' name"
  define lang where "lang = selectbox e (map fst (target_languages VideoApp))"
  let ?pre = "[StTitle ''Video Transcription & Description Generator'',
        WriteBinary p, StVideo p, StSpinner ''Processing video...'']"
  let ?s3 = "s\<lparr>files := (files s)(p \<mapsto> buffer), trace := trace s @ ?pre\<rparr>"
  obtain r s4 where pv: "process_video e (VideoProcessor p) lang ?s3 = (r, s4)"
    by (cases "process_video e (VideoProcessor p) lang ?s3") auto
  define E where "E = events_of (process_video e (VideoProcessor p) lang) ?s3"
  have t4: "trace s4 = trace s @ ?pre @ E"
    using process_video_trace_extends[of e "VideoProcessor p" lang ?s3] pv by (simp add: E_def)
  have "\<exists>post. list_all quiet post \<and> events_of (run e VideoApp) s = ?pre @ E @ post"
  proof (cases r)
    case (Inl x)
    have "events_of (run e VideoApp) s = ?pre @ E @
            [StError (''An error occurred: '' @ exn_str x), Logged ERROR (''Application error: '' @ exn_str x)]"
      using up bt pv Inl t4 unfolding events_of_def
      by (simp add: run_def upload_video_def py_defs Let_def p_def[symmetric] lang_def[symmetric])
    then show ?thesis by simp
  next
    case (Inr res)
    obtain tr de where res: "res = (tr, de)" by (cases res) auto
    have "events_of (run e VideoApp) s = ?pre @ E @
            [StSuccess ''Processing complete!'', StSubheader ''Transcription'', StWrite tr,
             StSubheader ''Generated Description'', StWrite de]"
      using up bt pv Inr res t4 unfolding events_of_def
      by (simp add: run_def upload_video_def py_defs Let_def
            display_transcription_def display_description_def p_def[symmetric] lang_def[symmetric])
    then show ?thesis by simp
  qed
  then show ?thesis unfolding E_def p_def lang_def .
qed

lemma language_name_is_no_code:
  "lang \<in> set (map fst (target_languages VideoApp)) \<Longrightarrow>
     lang \<notin> set (map snd (target_languages VideoApp)) \<and> lang \<noteq> ''en''"
  by (auto simp: VideoApp_def)

lemmas run_defs = run_def upload_video_def display_transcription_def display_description_def
  VideoApp_def os_path_join_def

section \<open>Claims about the leaf components\<close>

text \<open>
  C2. The claim: on every input on which the transcription call fails (transport or
  decoding failure, missing file, a response without a text field), \<^verbatim>\<open>transcribe\<close>
  returns the empty string and never raises. The code does not raise, but its fallback
  value is the empty list \<^verbatim>\<open>[]\<close>, not the empty string: here on a missing audio
  file, on a failed call, and on a response without \<^verbatim>\<open>text\<close>.
\<close>

theorem transcribe_fallback_is_empty_list:
  "fst (transcribe offline_env ''outputs/audio/audio.mp3'' initial_state) = Inr PyEmptyList
   \<and> fst (transcribe offline_env ''outputs/audio/audio.mp3''
            \<lparr>files = [''outputs/audio/audio.mp3'' \<mapsto> ''mp3''], trace = []\<rparr>) = Inr PyEmptyList
   \<and> fst (transcribe (working_env\<lparr>audio_transcriptions_create := (\<lambda>audio. Inr None)\<rparr>)
            ''outputs/audio/audio.mp3''
            \<lparr>files = [''outputs/audio/audio.mp3'' \<mapsto> ''mp3''], trace = []\<rparr>) = Inr PyEmptyList
   \<and> Inr PyEmptyList \<noteq> (Inr (PyStr []) :: exn + pyval)"
  by (simp add: transcribe_def transcriptions_create_def py_defs env_defs)

text \<open>
  C7. Whatever the text and the target language, \<^verbatim>\<open>translate_text\<close> returns its
  input unchanged when the chat call fails (or answers without a choice), returns the
  content of the first choice when the call succeeds, and never raises; on a string it
  always returns a string.
\<close>

theorem translate_text_degrades_to_input:
  "(\<forall>x. chat_completions_create e (Suc (length (trace s))) (translate_request text lang) = Inl x
        \<longrightarrow> fst (translate_text e text lang s) = Inr text)
   \<and> (chat_completions_create e (Suc (length (trace s))) (translate_request text lang) = Inr []
        \<longrightarrow> fst (translate_text e text lang s) = Inr text)
   \<and> (\<forall>c cs. chat_completions_create e (Suc (length (trace s))) (translate_request text lang) = Inr (c # cs)
        \<longrightarrow> fst (translate_text e text lang s) = Inr (PyStr c))
   \<and> (\<exists>v. fst (translate_text e text lang s) = Inr v)
   \<and> (\<forall>t. text = PyStr t \<longrightarrow> (\<exists>u. fst (translate_text e text lang s) = Inr (PyStr u)))"
  by (auto simp: translate_text_def chat_create_def first_content_def py_defs
        split: sum.splits list.splits)

theorem translate_text_degrades_to_input_witness:
  "fst (translate_text offline_env (PyStr ''This is a used bicycle'') ''de'' initial_state)
     = Inr (PyStr ''This is a used bicycle'')
   \<and> fst (translate_text working_env (PyStr ''This is a used bicycle'') ''de'' initial_state)
     = Inr (PyStr ''Gebrauchtes Fahrrad'')"
  using translate_text_degrades_to_input
          [of offline_env initial_state "PyStr ''This is a used bicycle''" "''de''"]
        translate_text_degrades_to_input
          [of working_env initial_state "PyStr ''This is a used bicycle''" "''de''"]
  by (simp add: env_defs translate_request_def)

text \<open>
  C8. On every input, a string or not, empty or not, \<^verbatim>\<open>detect_language\<close> returns
  the detector's code when the detector succeeds and \<^verbatim>\<open>None\<close> when it raises; it
  never raises itself.
\<close>

theorem detect_language_never_raises:
  "(\<forall>code. detect e text = Inr code \<longrightarrow> fst (detect_language e text s) = Inr (Some code))
   \<and> (\<forall>x. detect e text = Inl x \<longrightarrow> fst (detect_language e text s) = Inr None)
   \<and> (\<exists>r. fst (detect_language e text s) = Inr r)"
  by (auto simp: detect_language_def py_defs split: sum.splits)

theorem detect_language_never_raises_witness:
  "fst (detect_language working_env (PyStr ''This is a used bicycle'') initial_state) = Inr (Some ''en'')
   \<and> fst (detect_language working_env (PyStr []) initial_state) = Inr None
   \<and> fst (detect_language working_env PyEmptyList initial_state) = Inr None"
  using detect_language_never_raises [of working_env "PyStr ''This is a used bicycle''" initial_state]
        detect_language_never_raises [of working_env "PyStr []" initial_state]
        detect_language_never_raises [of working_env PyEmptyList initial_state]
  by (simp add: env_defs)

text \<open>
  C10. When \<^verbatim>\<open>OPENAI_API_KEY\<close> is absent (or empty) the script fails while it
  imports \<^verbatim>\<open>transcribe_audio\<close>, with the ValueError of that module, and nothing
  else has happened: the state, and so the trace of calls, is the one it started with.
\<close>

theorem missing_credential_fails_at_import:
  "environ e ''OPENAI_API_KEY'' = None \<or> environ e ''OPENAI_API_KEY'' = Some [] \<Longrightarrow>
   main e s = (Inl (Exn ValueError ''API key is missing. Set OPENAI_API_KEY as an environment variable.''), s)"
  by (auto simp: main_def import_transcribe_audio_def py_defs)

theorem missing_credential_fails_at_import_witness:
  "environ no_key_env ''OPENAI_API_KEY'' = None
   \<and> main no_key_env initial_state
       = (Inl (Exn ValueError ''API key is missing. Set OPENAI_API_KEY as an environment variable.''),
          initial_state)
   \<and> trace (snd (main no_key_env initial_state)) = []"
  using missing_credential_fails_at_import [of no_key_env initial_state]
  by (simp add: env_defs)

section \<open>Claims about the pipeline\<close>

text \<open>
  C1. The claim: for a valid video with decodable audio, \<^verbatim>\<open>process_video\<close> returns
  a pair or raises an extraction or a generation error, also when the transcription
  degrades. On that path the fallback \<^verbatim>\<open>[]\<close> of \<^verbatim>\<open>transcribe\<close> reaches
  \<^verbatim>\<open>f.write\<close> in \<^verbatim>\<open>_save_transcripts\<close>, and the TypeError raised there leaves
  \<^verbatim>\<open>process_video\<close>: the video is readable, both decoders succeed, the
  speech-to-text call fails.
\<close>

theorem process_video_degraded_transcript_raises_TypeError:
  "fst (process_video offline_env (VideoProcessor ''temp_uploads/clip.mp4'') ''de'' uploaded_state)
     = Inl (Exn TypeError ''write() argument must be str, not list'')"
  by (simp add: code_defs py_defs env_defs)

text \<open>
  C4. The claim: the translator is invoked on the transcript if and only if detection
  returned a code that differs from the target language, and when detection yields
  null the translation is skipped and the transcript is persisted unchanged. On the run
  in which the speech-to-text call fails, detection does yield null (the detector
  raises on the list \<^verbatim>\<open>[]\<close> that \<^verbatim>\<open>transcribe\<close> returned) and no translation is
  made, but the transcript is not persisted: \<^verbatim>\<open>f.write([])\<close> raises TypeError after
  \<^verbatim>\<open>open\<close> has truncated the file, so the file is left empty, also when it held the
  transcript of an earlier run, and the run ends with that TypeError.
\<close>

theorem degraded_transcript_is_not_persisted:
  "DetectLanguage PyEmptyList None
     \<in> set (events_of (process_video offline_env (VideoProcessor ''temp_uploads/clip.mp4'') ''de'') uploaded_state)
   \<and> filter is_translate_call (events_of (process_video offline_env (VideoProcessor ''temp_uploads/clip.mp4'') ''de'') uploaded_state) = []
   \<and> FWrite ''outputs/transcripts/transcript.txt'' PyEmptyList
     \<in> set (events_of (process_video offline_env (VideoProcessor ''temp_uploads/clip.mp4'') ''de'') uploaded_state)
   \<and> fst (process_video offline_env (VideoProcessor ''temp_uploads/clip.mp4'') ''de'' uploaded_state)
       = Inl (Exn TypeError ''write() argument must be str, not list'')
   \<and> files (snd (process_video offline_env (VideoProcessor ''temp_uploads/clip.mp4'') ''de'' uploaded_state))
        ''outputs/transcripts/transcript.txt'' = Some []
   \<and> files (snd (process_video offline_env (VideoProcessor ''temp_uploads/clip.mp4'') ''de''
          (uploaded_state\<lparr>files := (files uploaded_state)
             (''outputs/transcripts/transcript.txt'' \<mapsto> ''transcript of the previous run'')\<rparr>)))
        ''outputs/transcripts/transcript.txt'' = Some []"
  by (simp add: code_defs py_defs env_defs)

text \<open>
  What does hold of the transcript stage, on every run: \<^verbatim>\<open>translate_text\<close> is
  called before the transcript file is opened if and only if \<^verbatim>\<open>detect_language\<close>
  returned a code and that code differs from \<open>target_lang\<close>; such a call is on the
  value the detector saw. When detection gave \<^verbatim>\<open>None\<close> or the target language
  itself, no such call is made, the very value returned by \<^verbatim>\<open>transcribe\<close> is handed
  to \<^verbatim>\<open>f.write\<close>, and when it is a string the transcript file ends up holding it.
  The detector is assumed never to return the empty string as a code, which Python
  would treat as false.
\<close>

theorem transcript_translated_iff_detected_other_language:
  assumes det: "\<forall>v. detect e v \<noteq> Inr []"
    and evs: "evs = events_of (process_video e (VideoProcessor path) lang) s"
    and s': "s' = snd (process_video e (VideoProcessor path) lang s)"
  shows "((\<exists>x. CallTranslateText x lang \<in> set (before_transcript_saved (VideoProcessor path) evs))
            \<longleftrightarrow> (\<exists>x d. DetectLanguage x (Some d) \<in> set evs \<and> d \<noteq> lang))
       \<and> (\<forall>y l. CallTranslateText y l \<in> set (before_transcript_saved (VideoProcessor path) evs)
              \<longrightarrow> l = lang \<and> (\<exists>d. DetectLanguage y d \<in> set evs))
       \<and> (\<forall>x d. DetectLanguage x d \<in> set evs \<and> (d = None \<or> d = Some lang) \<longrightarrow>
              (\<forall>y l. CallTranslateText y l \<notin> set (before_transcript_saved (VideoProcessor path) evs))
              \<and> FWrite (transcripts_path (VideoProcessor path)) x \<in> set evs
              \<and> (\<forall>t. x = PyStr t \<longrightarrow> files s' (transcripts_path (VideoProcessor path)) = Some t))"
proof -
  have tr: "truthy (detected e x) \<longleftrightarrow> detected e x \<noteq> None" for x
    using det by (cases "detect e x") (auto simp: detected_def)
  have ne: "transcripts_path (VideoProcessor path) \<noteq> description_path (VideoProcessor path)"
    by (simp add: VideoProcessor_def)
  show ?thesis
  proof (cases rule: process_video_cases[of e "VideoProcessor path" lang s])
    case (extraction_failed y F evs0)
    then show ?thesis
      by (auto simp: evs s' event_simps dest: set_takeWhileD)
  next
    case (save_failed F pre x r)
    then show ?thesis
      using tr[of x] ne
      by (auto simp: evs s' event_simps transcript_translation_def final_transcript_def split: if_splits)
  next
    case (generation_failed F pre x r t g y)
    then show ?thesis
      using tr[of x] ne
      by (auto simp: evs s' event_simps transcript_translation_def final_transcript_def split: if_splits)
  next
    case (completed F pre x r t c cs r2)
    then show ?thesis
      using tr[of x] ne
      by (auto simp: evs s' event_simps transcript_translation_def final_transcript_def
            description_translation_def split: if_splits)
  qed
qed

theorem transcript_translated_iff_detected_other_language_witness:
  "(\<forall>v. detect working_env v \<noteq> Inr [])
   \<and> DetectLanguage (PyStr ''This is a used bicycle, good condition'') (Some ''en'')
       \<in> set (events_of (process_video working_env (VideoProcessor ''temp_uploads/clip.mp4'') ''de'') uploaded_state)
   \<and> (\<exists>x. CallTranslateText x ''de''
         \<in> set (before_transcript_saved (VideoProcessor ''temp_uploads/clip.mp4'')
                  (events_of (process_video working_env (VideoProcessor ''temp_uploads/clip.mp4'') ''de'') uploaded_state)))
   \<and> (\<forall>y l. CallTranslateText y l
         \<notin> set (before_transcript_saved (VideoProcessor ''temp_uploads/clip.mp4'')
                  (events_of (process_video working_env (VideoProcessor ''temp_uploads/clip.mp4'') ''en'') uploaded_state)))
   \<and> files (snd (process_video working_env (VideoProcessor ''temp_uploads/clip.mp4'') ''en'' uploaded_state))
        (transcripts_path (VideoProcessor ''temp_uploads/clip.mp4''))
       = Some ''This is a used bicycle, good condition''"
proof -
  have det: "\<forall>v. detect working_env v \<noteq> Inr []"
    by (simp add: working_env_def split: pyval.splits)
  have d1: "DetectLanguage (PyStr ''This is a used bicycle, good condition'') (Some ''en'')
       \<in> set (events_of (process_video working_env (VideoProcessor ''temp_uploads/clip.mp4'') ''de'') uploaded_state)"
    by (simp add: code_defs py_defs env_defs)
  have d2: "DetectLanguage (PyStr ''This is a used bicycle, good condition'') (Some ''en'')
       \<in> set (events_of (process_video working_env (VideoProcessor ''temp_uploads/clip.mp4'') ''en'') uploaded_state)"
    by (simp add: code_defs py_defs env_defs)
  have ne: "''en'' \<noteq> ''de''" by simp
  note A = transcript_translated_iff_detected_other_language
             [OF det refl refl, where path = "''temp_uploads/clip.mp4''" and lang = "''de''" and s = uploaded_state]
  note B = transcript_translated_iff_detected_other_language
             [OF det refl refl, where path = "''temp_uploads/clip.mp4''" and lang = "''en''" and s = uploaded_state]
  have ex: "\<exists>x d. DetectLanguage x (Some d)
       \<in> set (events_of (process_video working_env (VideoProcessor ''temp_uploads/clip.mp4'') ''de'') uploaded_state)
       \<and> d \<noteq> ''de''"
    by (rule exI[of _ "PyStr ''This is a used bicycle, good condition''"], rule exI[of _ "''en''"])
       (rule conjI[OF d1 ne])
  have a: "\<exists>x. CallTranslateText x ''de''
         \<in> set (before_transcript_saved (VideoProcessor ''temp_uploads/clip.mp4'')
                  (events_of (process_video working_env (VideoProcessor ''temp_uploads/clip.mp4'') ''de'') uploaded_state))"
    by (rule iffD2[OF conjunct1[OF A] ex])
  have pre: "DetectLanguage (PyStr ''This is a used bicycle, good condition'') (Some ''en'')
       \<in> set (events_of (process_video working_env (VideoProcessor ''temp_uploads/clip.mp4'') ''en'') uploaded_state)
       \<and> (Some ''en'' = None \<or> Some ''en'' = Some ''en'')"
    by (intro conjI d2 disjI2 refl)
  note D = conjunct2[OF conjunct2[OF B], rule_format,
             of "PyStr ''This is a used bicycle, good condition''" "Some ''en''", OF pre]
  note b1 = conjunct1[OF D]
  note b3 = conjunct2[OF conjunct2[OF D], rule_format, OF refl]
  show ?thesis
    by (intro conjI det d1 a b1 b3)
qed

text \<open>
  C5. Whatever the transcript and the target language, the first thing
  \<^verbatim>\<open>generate_description\<close> does is one chat call: model \<^verbatim>\<open>gpt-4\<close>, temperature
  0.7, and a single user message that asks for a product description in English and
  ends with the transcript; the request does not depend on the target language. When
  that call yields a draft and the target language is not \<^verbatim>\<open>en\<close>, the rest of the
  method is exactly \<^verbatim>\<open>translate_text\<close> on that draft; when the target language is
  \<^verbatim>\<open>en\<close> the draft is returned as it is and no call of \<^verbatim>\<open>translate_text\<close> is
  made, whatever the service answers. A call of \<^verbatim>\<open>translate_text\<close> happens if and
  only if the target language is not \<^verbatim>\<open>en\<close> and a draft was produced.
\<close>

theorem generate_description_translates_iff_not_english:
  assumes g: "g = chat_completions_create e (Suc (length (trace s))) (description_request t)"
    and s1: "s1 = s\<lparr>trace := trace s @ [CallGenerateDescription t lang, ChatCreate (description_request t) g]\<rparr>"
    and evs: "evs = events_of (generate_description e t lang) s"
  shows "model (description_request t) = ''gpt-4''
       \<and> temperature (description_request t) = 7 / 10
       \<and> messages (description_request t) =
           [(''user'', PyStr (
              ''\<newline>            Create a concise product description in English based on this video transcript.\<newline>            Format the description as line-by-line bullet points:\<newline>            - Product name and type\<newline>            - Key features (one per line)\<newline>            - Condition\<newline>            - Age suitability (if mentioned)\<newline>            - Price (if mentioned)\<newline>            \<newline>            Keep it brief and factual. Use simple language. Only include information from the transcript.\<newline>            Start each line with a hyphen and space.\<newline>            \<newline>            Transcript:\<newline>            ''
              @ py_str t @ ''\<newline>            ''))]
       \<and> (\<exists>rest. evs = CallGenerateDescription t lang # ChatCreate (description_request t) g # rest)
       \<and> (\<forall>c cs. g = Inr (c # cs) \<and> lang \<noteq> ''en'' \<longrightarrow>
            generate_description e t lang s = translate_text e (PyStr c) lang s1
            \<and> CallTranslateText (PyStr c) lang \<in> set evs)
       \<and> (\<forall>c cs. g = Inr (c # cs) \<and> lang = ''en'' \<longrightarrow>
            generate_description e t lang s = (Inr (PyStr c), s1))
       \<and> (lang = ''en'' \<longrightarrow> (\<forall>ev \<in> set evs. \<not> is_translate_call ev))
       \<and> ((\<exists>ev \<in> set evs. is_translate_call ev) \<longleftrightarrow> lang \<noteq> ''en'' \<and> (\<exists>c cs. g = Inr (c # cs)))"
proof -
  have req: "model (description_request t) = ''gpt-4''
       \<and> temperature (description_request t) = 7 / 10
       \<and> messages (description_request t) =
           [(''user'', PyStr (
              ''\<newline>            Create a concise product description in English based on this video transcript.\<newline>            Format the description as line-by-line bullet points:\<newline>            - Product name and type\<newline>            - Key features (one per line)\<newline>            - Condition\<newline>            - Age suitability (if mentioned)\<newline>            - Price (if mentioned)\<newline>            \<newline>            Keep it brief and factual. Use simple language. Only include information from the transcript.\<newline>            Start each line with a hyphen and space.\<newline>            \<newline>            Transcript:\<newline>            ''
              @ py_str t @ ''\<newline>            ''))]"
    by (simp add: description_request_def prompt_format_def prompt_head_def prompt_tail_def)
  have first: "\<exists>rest. evs = CallGenerateDescription t lang # ChatCreate (description_request t) g # rest"
    using g evs
    by (auto simp: generate_description_eq translate_text_eq Let_def events_of_def
          split: sum.splits list.splits)
  have flow: "(\<forall>c cs. g = Inr (c # cs) \<and> lang \<noteq> ''en'' \<longrightarrow>
            generate_description e t lang s = translate_text e (PyStr c) lang s1
            \<and> CallTranslateText (PyStr c) lang \<in> set evs)
       \<and> (\<forall>c cs. g = Inr (c # cs) \<and> lang = ''en'' \<longrightarrow>
            generate_description e t lang s = (Inr (PyStr c), s1))
       \<and> (lang = ''en'' \<longrightarrow> (\<forall>ev \<in> set evs. \<not> is_translate_call ev))
       \<and> ((\<exists>ev \<in> set evs. is_translate_call ev) \<longleftrightarrow> lang \<noteq> ''en'' \<and> (\<exists>c cs. g = Inr (c # cs)))"
    using g s1 evs
    by (auto simp: generate_description_eq translate_text_eq Let_def events_of_def translation_events_mem
          translation_events_has_call
          split: sum.splits list.splits dest: translation_events_translate_call)
  from req first flow show ?thesis by (intro conjI) (erule conjunct1 conjunct2 | assumption | blast)+
qed

theorem generate_description_translates_iff_not_english_witness:
  "ChatCreate
      \<lparr>model = ''gpt-4'',
       messages = [(''user'', PyStr (
          ''\<newline>            Create a concise product description in English based on this video transcript.\<newline>            Format the description as line-by-line bullet points:\<newline>            - Product name and type\<newline>            - Key features (one per line)\<newline>            - Condition\<newline>            - Age suitability (if mentioned)\<newline>            - Price (if mentioned)\<newline>            \<newline>            Keep it brief and factual. Use simple language. Only include information from the transcript.\<newline>            Start each line with a hyphen and space.\<newline>            \<newline>            Transcript:\<newline>            ''
          @ ''This is a used bicycle'' @ ''\<newline>            ''))],
       temperature = 7 / 10\<rparr>
      (Inr [''- Used bicycle''])
     \<in> set (events_of (generate_description working_env (PyStr ''This is a used bicycle'') ''de'') initial_state)
   \<and> generate_description working_env (PyStr ''This is a used bicycle'') ''de'' initial_state
     = translate_text working_env (PyStr ''- Used bicycle'') ''de''
         (initial_state\<lparr>trace := trace initial_state @
            [CallGenerateDescription (PyStr ''This is a used bicycle'') ''de'',
             ChatCreate (description_request (PyStr ''This is a used bicycle'')) (Inr [''- Used bicycle''])]\<rparr>)
   \<and> CallTranslateText (PyStr ''- Used bicycle'') ''de''
       \<in> set (events_of (generate_description working_env (PyStr ''This is a used bicycle'') ''de'') initial_state)
   \<and> generate_description working_env (PyStr ''This is a used bicycle'') ''en'' initial_state
     = (Inr (PyStr ''- Used bicycle''),
        initial_state\<lparr>trace := trace initial_state @
            [CallGenerateDescription (PyStr ''This is a used bicycle'') ''en'',
             ChatCreate (description_request (PyStr ''This is a used bicycle'')) (Inr [''- Used bicycle''])]\<rparr>)"
proof -
  have g: "chat_completions_create working_env (Suc (length (trace initial_state)))
             (description_request (PyStr ''This is a used bicycle'')) = Inr [''- Used bicycle'']"
    by (simp add: working_env_def description_request_def)
  have ne: "''de'' \<noteq> ''en''" by simp
  note A = generate_description_translates_iff_not_english
             [OF refl refl refl, where e = working_env and s = initial_state
               and t = "PyStr ''This is a used bicycle''" and lang = "''de''", unfolded g]
  note B = generate_description_translates_iff_not_english
             [OF refl refl refl, where e = working_env and s = initial_state
               and t = "PyStr ''This is a used bicycle''" and lang = "''en''", unfolded g]
  note A4 = conjunct2[OF conjunct2[OF conjunct2[OF A]]]
  note B4 = conjunct2[OF conjunct2[OF conjunct2[OF B]]]
  have rq: "description_request (PyStr ''This is a used bicycle'') =
      \<lparr>model = ''gpt-4'',
       messages = [(''user'', PyStr (
          ''\<newline>            Create a concise product description in English based on this video transcript.\<newline>            Format the description as line-by-line bullet points:\<newline>            - Product name and type\<newline>            - Key features (one per line)\<newline>            - Condition\<newline>            - Age suitability (if mentioned)\<newline>            - Price (if mentioned)\<newline>            \<newline>            Keep it brief and factual. Use simple language. Only include information from the transcript.\<newline>            Start each line with a hyphen and space.\<newline>            \<newline>            Transcript:\<newline>            ''
          @ ''This is a used bicycle'' @ ''\<newline>            ''))],
       temperature = 7 / 10\<rparr>"
    using conjunct1[OF A] conjunct1[OF conjunct2[OF A]] conjunct1[OF conjunct2[OF conjunct2[OF A]]]
    by (intro chat_request.equality) simp_all
  obtain rest where rest: "events_of (generate_description working_env (PyStr ''This is a used bicycle'') ''de'') initial_state
      = CallGenerateDescription (PyStr ''This is a used bicycle'') ''de'' #
        ChatCreate (description_request (PyStr ''This is a used bicycle'')) (Inr [''- Used bicycle'']) # rest"
    using conjunct1[OF A4] by blast
  have q: "ChatCreate
      \<lparr>model = ''gpt-4'',
       messages = [(''user'', PyStr (
          ''\<newline>            Create a concise product description in English based on this video transcript.\<newline>            Format the description as line-by-line bullet points:\<newline>            - Product name and type\<newline>            - Key features (one per line)\<newline>            - Condition\<newline>            - Age suitability (if mentioned)\<newline>            - Price (if mentioned)\<newline>            \<newline>            Keep it brief and factual. Use simple language. Only include information from the transcript.\<newline>            Start each line with a hyphen and space.\<newline>            \<newline>            Transcript:\<newline>            ''
          @ ''This is a used bicycle'' @ ''\<newline>            ''))],
       temperature = 7 / 10\<rparr>
      (Inr [''- Used bicycle''])
     \<in> set (events_of (generate_description working_env (PyStr ''This is a used bicycle'') ''de'') initial_state)"
    unfolding rest rq[symmetric] by simp
  have a: "generate_description working_env (PyStr ''This is a used bicycle'') ''de'' initial_state
     = translate_text working_env (PyStr ''- Used bicycle'') ''de''
         (initial_state\<lparr>trace := trace initial_state @
            [CallGenerateDescription (PyStr ''This is a used bicycle'') ''de'',
             ChatCreate (description_request (PyStr ''This is a used bicycle'')) (Inr [''- Used bicycle''])]\<rparr>)
   \<and> CallTranslateText (PyStr ''- Used bicycle'') ''de''
       \<in> set (events_of (generate_description working_env (PyStr ''This is a used bicycle'') ''de'') initial_state)"
    using conjunct1[OF conjunct2[OF A4]] ne by blast
  have b: "generate_description working_env (PyStr ''This is a used bicycle'') ''en'' initial_state
     = (Inr (PyStr ''- Used bicycle''),
        initial_state\<lparr>trace := trace initial_state @
            [CallGenerateDescription (PyStr ''This is a used bicycle'') ''en'',
             ChatCreate (description_request (PyStr ''This is a used bicycle'')) (Inr [''- Used bicycle''])]\<rparr>)"
    using conjunct1[OF conjunct2[OF conjunct2[OF B4]]] by blast
  show ?thesis
    by (intro conjI q conjunct1[OF a] conjunct2[OF a] b)
qed

text \<open>
  C6. When \<^verbatim>\<open>generate_description\<close> was entered on transcript \<open>t\<close> and its chat
  call failed with \<open>x\<close>, \<^verbatim>\<open>process_video\<close> raises that same \<open>x\<close>, the transcript
  file written just before still holds \<open>t\<close>, and the description file was never
  opened.
\<close>

theorem generation_failure_propagates:
  assumes evs: "evs = events_of (process_video e (VideoProcessor path) lang) s"
    and call: "CallGenerateDescription t l \<in> set evs"
    and fail: "ChatCreate (description_request t) (Inl x) \<in> set evs"
  shows "fst (process_video e (VideoProcessor path) lang s) = Inl x
       \<and> (\<exists>tt. t = PyStr tt
             \<and> FWrite (transcripts_path (VideoProcessor path)) (PyStr tt) \<in> set evs
             \<and> files (snd (process_video e (VideoProcessor path) lang s))
                 (transcripts_path (VideoProcessor path)) = Some tt)
       \<and> OpenW (description_path (VideoProcessor path)) \<notin> set evs"
proof -
  have ne: "transcripts_path (VideoProcessor path) \<noteq> description_path (VideoProcessor path)"
    by (simp add: VideoProcessor_def)
  show ?thesis
  proof (cases rule: process_video_cases[of e "VideoProcessor path" lang s])
    case (extraction_failed y F evs0)
    then show ?thesis using call by (auto simp: evs event_simps)
  next
    case (save_failed F pre x0 r)
    then show ?thesis
      using call by (auto simp: evs event_simps transcript_translation_def split: if_splits)
  next
    case (generation_failed F pre x0 r tt g y)
    then show ?thesis
      using call fail ne
      by (auto simp: evs event_simps transcript_translation_def split: if_splits)
  next
    case (completed F pre x0 r tt c cs r2)
    then show ?thesis
      using call fail
      by (auto simp: evs event_simps transcript_translation_def description_translation_def split: if_splits)
  qed
qed

theorem generation_failure_propagates_witness:
  "CallGenerateDescription (PyStr ''Gebrauchtes Fahrrad'') ''de''
     \<in> set (events_of (process_video generation_down_env (VideoProcessor ''temp_uploads/clip.mp4'') ''de'') uploaded_state)
   \<and> ChatCreate (description_request (PyStr ''Gebrauchtes Fahrrad'')) (Inl (Exn OpenAIError ''Rate limit reached.''))
     \<in> set (events_of (process_video generation_down_env (VideoProcessor ''temp_uploads/clip.mp4'') ''de'') uploaded_state)
   \<and> fst (process_video generation_down_env (VideoProcessor ''temp_uploads/clip.mp4'') ''de'' uploaded_state)
       = Inl (Exn OpenAIError ''Rate limit reached.'')
   \<and> files (snd (process_video generation_down_env (VideoProcessor ''temp_uploads/clip.mp4'') ''de'' uploaded_state))
        (transcripts_path (VideoProcessor ''temp_uploads/clip.mp4'')) = Some ''Gebrauchtes Fahrrad''
   \<and> OpenW (description_path (VideoProcessor ''temp_uploads/clip.mp4''))
     \<notin> set (events_of (process_video generation_down_env (VideoProcessor ''temp_uploads/clip.mp4'') ''de'') uploaded_state)"
proof -
  have call: "CallGenerateDescription (PyStr ''Gebrauchtes Fahrrad'') ''de''
     \<in> set (events_of (process_video generation_down_env (VideoProcessor ''temp_uploads/clip.mp4'') ''de'') uploaded_state)"
    by (simp add: code_defs py_defs env_defs)
  have fail: "ChatCreate (description_request (PyStr ''Gebrauchtes Fahrrad'')) (Inl (Exn OpenAIError ''Rate limit reached.''))
     \<in> set (events_of (process_video generation_down_env (VideoProcessor ''temp_uploads/clip.mp4'') ''de'') uploaded_state)"
    by (simp add: code_defs py_defs env_defs)
  note T = generation_failure_propagates [OF refl call fail]
  from T obtain tt where tt: "PyStr ''Gebrauchtes Fahrrad'' = PyStr tt"
    and f: "files (snd (process_video generation_down_env (VideoProcessor ''temp_uploads/clip.mp4'') ''de'' uploaded_state))
        (transcripts_path (VideoProcessor ''temp_uploads/clip.mp4'')) = Some tt"
    by blast
  from tt have "tt = ''Gebrauchtes Fahrrad''" by (simp only: pyval.inject)
  with f have f': "files (snd (process_video generation_down_env (VideoProcessor ''temp_uploads/clip.mp4'') ''de'' uploaded_state))
        (transcripts_path (VideoProcessor ''temp_uploads/clip.mp4'')) = Some ''Gebrauchtes Fahrrad''"
    by (simp only:)
  show ?thesis
    by (intro conjI call fail f' conjunct1[OF T] conjunct2[OF conjunct2[OF T]])
qed

text \<open>
  C9, as the claim states it: the persisted description is non-empty only if a non-empty
  transcript was available, synthesis being guarded against the empty transcript. There
  is no such guard: for a clip without speech the transcription is the empty string,
  \<^verbatim>\<open>generate_description\<close> is called on it, and the description it returns is
  persisted.
\<close>

theorem empty_transcript_is_described:
  "fst (process_video silent_env (VideoProcessor ''temp_uploads/clip.mp4'') ''en'' uploaded_state)
     = Inr (PyStr [], PyStr ''- Used bicycle'')
   \<and> files (snd (process_video silent_env (VideoProcessor ''temp_uploads/clip.mp4'') ''en'' uploaded_state))
        ''outputs/transcripts/transcript.txt'' = Some []
   \<and> files (snd (process_video silent_env (VideoProcessor ''temp_uploads/clip.mp4'') ''en'' uploaded_state))
        ''outputs/description/description.txt'' = Some ''- Used bicycle''
   \<and> CallGenerateDescription (PyStr []) ''en''
        \<in> set (trace (snd (process_video silent_env (VideoProcessor ''temp_uploads/clip.mp4'') ''en'' uploaded_state)))"
  by (simp add: code_defs py_defs env_defs)

text \<open>
  C9, amended. In every completed run the transcript is a string and the description
  generator was called on it, empty or not; both files hold what the run returns, the
  description being what the generator made of that transcript.
\<close>

theorem completed_run_describes_persisted_transcript:
  assumes ok: "fst (process_video e (VideoProcessor path) lang s) = Inr (transcript, description)"
    and evs: "evs = events_of (process_video e (VideoProcessor path) lang) s"
    and s': "s' = snd (process_video e (VideoProcessor path) lang s)"
  shows "\<exists>t d. transcript = PyStr t \<and> description = PyStr d
           \<and> files s' (transcripts_path (VideoProcessor path)) = Some t
           \<and> files s' (description_path (VideoProcessor path)) = Some d
           \<and> CallGenerateDescription (PyStr t) lang \<in> set evs
           \<and> (\<exists>c cs. ChatCreate (description_request (PyStr t)) (Inr (c # cs)) \<in> set evs)"
proof -
  have ne: "transcripts_path (VideoProcessor path) \<noteq> description_path (VideoProcessor path)"
    by (simp add: VideoProcessor_def)
  show ?thesis
  proof (cases rule: process_video_cases[of e "VideoProcessor path" lang s])
    case (completed F pre x0 r tt c cs r2)
    obtain d where d: "final_description c lang r2 = PyStr d"
      using final_description_str by blast
    show ?thesis
      using completed ok ne d by (auto simp: evs s' events_of_def)
  qed (use ok in auto)
qed

theorem completed_run_describes_persisted_transcript_witness:
  "fst (process_video working_env (VideoProcessor ''temp_uploads/clip.mp4'') ''en'' uploaded_state)
     = Inr (PyStr ''This is a used bicycle, good condition'', PyStr ''- Used bicycle'')
   \<and> files (snd (process_video working_env (VideoProcessor ''temp_uploads/clip.mp4'') ''en'' uploaded_state))
        (transcripts_path (VideoProcessor ''temp_uploads/clip.mp4'')) = Some ''This is a used bicycle, good condition''
   \<and> files (snd (process_video working_env (VideoProcessor ''temp_uploads/clip.mp4'') ''en'' uploaded_state))
        (description_path (VideoProcessor ''temp_uploads/clip.mp4'')) = Some ''- Used bicycle''
   \<and> CallGenerateDescription (PyStr ''This is a used bicycle, good condition'') ''en''
       \<in> set (events_of (process_video working_env (VideoProcessor ''temp_uploads/clip.mp4'') ''en'') uploaded_state)"
proof -
  have ok: "fst (process_video working_env (VideoProcessor ''temp_uploads/clip.mp4'') ''en'' uploaded_state)
     = Inr (PyStr ''This is a used bicycle, good condition'', PyStr ''- Used bicycle'')"
    by (simp add: code_defs py_defs env_defs)
  from completed_run_describes_persisted_transcript [OF ok refl refl]
  obtain t d where t: "PyStr ''This is a used bicycle, good condition'' = PyStr t"
    and d: "PyStr ''- Used bicycle'' = PyStr d"
    and ft: "files (snd (process_video working_env (VideoProcessor ''temp_uploads/clip.mp4'') ''en'' uploaded_state))
        (transcripts_path (VideoProcessor ''temp_uploads/clip.mp4'')) = Some t"
    and fd: "files (snd (process_video working_env (VideoProcessor ''temp_uploads/clip.mp4'') ''en'' uploaded_state))
        (description_path (VideoProcessor ''temp_uploads/clip.mp4'')) = Some d"
    and cg: "CallGenerateDescription (PyStr t) ''en''
       \<in> set (events_of (process_video working_env (VideoProcessor ''temp_uploads/clip.mp4'') ''en'') uploaded_state)"
    by blast
  have t': "t = ''This is a used bicycle, good condition''" using t by (simp only: pyval.inject)
  have d': "d = ''- Used bicycle''" using d by (simp only: pyval.inject)
  show ?thesis
    using ok ft fd cg unfolding t' d' by (intro conjI)
qed

section \<open>Claims about the application\<close>

text \<open>
  C3. With a file uploaded and the button pressed, \<^verbatim>\<open>run\<close> calls
  \<^verbatim>\<open>process_video\<close> exactly with the option chosen in the selector, which is a key of
  \<^verbatim>\<open>target_languages\<close> (a language name), never one of its two-letter codes and never
  \<^verbatim>\<open>en\<close>. So whenever detection returns a code (non-empty, and not itself one of
  the five names), \<^verbatim>\<open>translate_text\<close> is called on the transcript with that name
  as target before the transcript is saved; and whenever the description request
  yields a draft, \<^verbatim>\<open>translate_text\<close> is called on the draft with that name, also
  when the content already is in the chosen language.
\<close>

theorem run_passes_language_name:
  assumes up: "file_uploader e = Some (name, buffer)" and bt: "button e"
    and sel: "selectbox e (map fst (target_languages VideoApp)) = lang"
    and opt: "lang \<in> set (map fst (target_languages VideoApp))"
    and evs: "evs = events_of (run e VideoApp) s"
  shows "(\<forall>l. CallProcessVideo l \<in> set evs \<longleftrightarrow> l = lang)
       \<and> lang \<notin> set (map snd (target_languages VideoApp)) \<and> lang \<noteq> ''en''
       \<and> (\<forall>x d. DetectLanguage x (Some d) \<in> set evs \<and> d \<noteq> []
                 \<and> d \<notin> set (map fst (target_languages VideoApp)) \<longrightarrow>
              CallTranslateText x lang
                \<in> set (before_transcript_saved (VideoProcessor (os_path_join ''temp_uploads'' name)) evs))
       \<and> (\<forall>t c cs. ChatCreate (description_request t) (Inr (c # cs)) \<in> set evs \<longrightarrow>
              CallTranslateText (PyStr c) lang \<in> set evs)"
proof -
  define p where "p = os_path_join ''temp_uploads'' name"
  let ?pre = "[StTitle ''Video Transcription & Description Generator'',
        WriteBinary p, StVideo p, StSpinner ''Processing video...'']"
  let ?s3 = "s\<lparr>files := (files s)(p \<mapsto> buffer), trace := trace s @ ?pre\<rparr>"
  let ?P = "\<lambda>ev. ev \<noteq> OpenW (transcripts_path (VideoProcessor p))"
  define E where "E = events_of (process_video e (VideoProcessor p) lang) ?s3"
  obtain post where qp: "list_all quiet post" and ev: "evs = ?pre @ E @ post"
    using run_events[OF up bt, of s] sel evs unfolding E_def p_def by auto
  note pv = process_video_events_translate[OF E_def]
  have name: "lang \<notin> set (map snd (target_languages VideoApp)) \<and> lang \<noteq> ''en''"
    using opt by (rule language_name_is_no_code)
  have tw: "takeWhile ?P evs = ?pre @ takeWhile ?P (E @ post)"
    unfolding ev by simp
  have a: "CallProcessVideo l \<in> set evs \<longleftrightarrow> l = lang" for l
    using pv(1)[of l] qp by (auto simp: ev quiet_mem)
  have b: "CallTranslateText x lang \<in> set (before_transcript_saved (VideoProcessor p) evs)"
    if "DetectLanguage x (Some d) \<in> set evs" "d \<noteq> []" "d \<notin> set (map fst (target_languages VideoApp))" for x d
  proof -
    have "DetectLanguage x (Some d) \<in> set E"
      using that(1) qp by (auto simp: ev quiet_mem)
    moreover have "d \<noteq> lang" using that(3) opt by auto
    ultimately have "CallTranslateText x lang \<in> set (takeWhile ?P E)"
      using pv(2) that(2) by blast
    then have "CallTranslateText x lang \<in> set (takeWhile ?P (E @ post))"
      by (rule takeWhile_append_mono)
    then show ?thesis unfolding before_transcript_saved_def tw by simp
  qed
  have c: "CallTranslateText (PyStr c) lang \<in> set evs"
    if "ChatCreate (description_request t) (Inr (c # cs)) \<in> set evs" for t c cs
  proof -
    have "ChatCreate (description_request t) (Inr (c # cs)) \<in> set E"
      using that qp by (auto simp: ev quiet_mem)
    then have "CallTranslateText (PyStr c) lang \<in> set E"
      using pv(3) name by blast
    then show ?thesis by (simp add: ev)
  qed
  show ?thesis using a b c name unfolding p_def by blast
qed

theorem run_passes_language_name_witness:
  "DetectLanguage (PyStr ''This is a used bicycle, good condition'') (Some ''en'')
     \<in> set (events_of (run working_env VideoApp) initial_state)
   \<and> CallProcessVideo ''English'' \<in> set (events_of (run working_env VideoApp) initial_state)
   \<and> CallTranslateText (PyStr ''This is a used bicycle, good condition'') ''English''
       \<in> set (before_transcript_saved (VideoProcessor (os_path_join ''temp_uploads'' ''clip.mp4''))
                (events_of (run working_env VideoApp) initial_state))
   \<and> ChatCreate (description_request (PyStr ''Gebrauchtes Fahrrad'')) (Inr [''- Used bicycle''])
       \<in> set (events_of (run working_env VideoApp) initial_state)
   \<and> CallTranslateText (PyStr ''- Used bicycle'') ''English''
       \<in> set (events_of (run working_env VideoApp) initial_state)"
proof -
  have up: "file_uploader working_env = Some (''clip.mp4'', ''video'')"
    and bt: "button working_env"
    and sel: "selectbox working_env (map fst (target_languages VideoApp)) = ''English''"
    and opt: "''English'' \<in> set (map fst (target_languages VideoApp))"
    by (simp_all add: working_env_def VideoApp_def)
  have det: "DetectLanguage (PyStr ''This is a used bicycle, good condition'') (Some ''en'')
     \<in> set (events_of (run working_env VideoApp) initial_state)"
    by (simp add: run_defs code_defs py_defs env_defs)
  have gen: "ChatCreate (description_request (PyStr ''Gebrauchtes Fahrrad'')) (Inr [''- Used bicycle''])
     \<in> set (events_of (run working_env VideoApp) initial_state)"
    by (simp add: run_defs code_defs py_defs env_defs)
  have nm: "''en'' \<noteq> [] \<and> ''en'' \<notin> set (map fst (target_languages VideoApp))"
    by (simp add: VideoApp_def)
  note T = run_passes_language_name[OF up bt sel opt refl, where s = initial_state]
  note c1 = iffD2[OF conjunct1[OF T, THEN spec, of "''English''"] refl]
  note T4 = conjunct2[OF conjunct2[OF conjunct2[OF T]]]
  note c3 = conjunct1[OF T4, rule_format, OF conjI[OF det nm]]
  note c4 = conjunct2[OF T4, rule_format, OF gen]
  show ?thesis
    by (intro conjI det c1 c3 gen c4)
qed

end
